theory Spec2Isabelle
  imports Complex_Main "HOL-Library.Sublist"
begin

section \<open>Python values shared by the modules\<close>

text \<open>
  Exceptions are values: the class of the exception and the text that \<open>str(e)\<close> gives.
  A function of the source that can raise returns \<open>pyexc + 'a\<close>, with \<open>Inl\<close> for the raise.
  For the exceptions that the calendar raises the text is a short form of the library's,
  which names the offending number.
\<close>

datatype exc_class =
  ValueError | TypeError | AttributeError | OverflowError | IllegalMonthError
  | JSONDecodeError | RuntimeError | OtherError

datatype pyexc = PyExc exc_class string

fun exc_class_of :: "pyexc \<Rightarrow> exc_class" where
  "exc_class_of (PyExc c m) = c"

fun exc_str :: "pyexc \<Rightarrow> string" where
  "exc_str (PyExc c m) = m"

section \<open>Calendar dates (datetime.date, calendar)\<close>

record date =
  year :: int
  month :: int
  day :: int

definition is_leap :: "int \<Rightarrow> bool" where
  "is_leap y = (y mod 4 = 0 \<and> (y mod 100 \<noteq> 0 \<or> y mod 400 = 0))"

text \<open>The table \<open>calendar.mdays\<close>, looked up for a month in 1..12.\<close>

definition mdays :: "int \<Rightarrow> int" where
  "mdays m = (if m = 2 then 28 else if m = 4 \<or> m = 6 \<or> m = 9 \<or> m = 11 then 30 else 31)"

text \<open>\<open>calendar.monthrange(year, month)[1]\<close>: the number of days of the month; a month
  outside 1..12 raises.\<close>

definition monthrange_days :: "int \<Rightarrow> int \<Rightarrow> pyexc + int" where
  "monthrange_days y m =
     (if \<not> (1 \<le> m \<and> m \<le> 12) then Inl (PyExc IllegalMonthError ''bad month number'')
      else Inr (mdays m + (if m = 2 \<and> is_leap y then 1 else 0)))"

definition days_in_month :: "int \<Rightarrow> int \<Rightarrow> int" where
  "days_in_month y m = mdays m + (if m = 2 \<and> is_leap y then 1 else 0)"

definition MINYEAR :: int where "MINYEAR = 1"
definition MAXYEAR :: int where "MAXYEAR = 9999"

text \<open>The values a \<open>datetime.date\<close> object can hold.\<close>

definition valid_date :: "date \<Rightarrow> bool" where
  "valid_date d = (MINYEAR \<le> year d \<and> year d \<le> MAXYEAR \<and> 1 \<le> month d \<and> month d \<le> 12
                   \<and> 1 \<le> day d \<and> day d \<le> days_in_month (year d) (month d))"

text \<open>The constructor \<open>date(y, m, d)\<close> (also reached through \<open>date.replace\<close>): it raises
  ValueError on a year, month or day out of range.\<close>

definition make_date :: "int \<Rightarrow> int \<Rightarrow> int \<Rightarrow> pyexc + date" where
  "make_date y m d =
     (if valid_date \<lparr>year = y, month = m, day = d\<rparr> then Inr \<lparr>year = y, month = m, day = d\<rparr>
      else Inl (PyExc ValueError ''date value out of range''))"

text \<open>Comparison of dates: lexicographic on (year, month, day).\<close>

definition date_less :: "date \<Rightarrow> date \<Rightarrow> bool" where
  "date_less a b = (year a < year b \<or> (year a = year b \<and>
                     (month a < month b \<or> (month a = month b \<and> day a < day b))))"

text \<open>Proleptic Gregorian ordinals, as \<open>date.toordinal\<close> computes them.\<close>

definition days_before_year :: "int \<Rightarrow> int" where
  "days_before_year y = (let k = y - 1 in k * 365 + k div 4 - k div 100 + k div 400)"

definition days_before_month_tab :: "int \<Rightarrow> int" where
  "days_before_month_tab m =
     (if m = 1 then 0 else if m = 2 then 31 else if m = 3 then 59 else if m = 4 then 90
      else if m = 5 then 120 else if m = 6 then 151 else if m = 7 then 181
      else if m = 8 then 212 else if m = 9 then 243 else if m = 10 then 273
      else if m = 11 then 304 else 334)"

definition days_before_month :: "int \<Rightarrow> int \<Rightarrow> int" where
  "days_before_month y m = days_before_month_tab m + (if m > 2 \<and> is_leap y then 1 else 0)"

definition toordinal :: "date \<Rightarrow> int" where
  "toordinal d = days_before_year (year d) + days_before_month (year d) (month d) + day d"

definition MAXORDINAL :: int where "MAXORDINAL = 3652059"

text \<open>\<open>date.fromordinal\<close>, by the 400/100/4/1-year cycles of the standard library.\<close>

definition fromordinal :: "int \<Rightarrow> date" where
  "fromordinal n0 =
     (let n = n0 - 1;
          n400 = n div 146097; n = n mod 146097;
          y = n400 * 400 + 1;
          n100 = n div 36524; n = n mod 36524;
          n4 = n div 1461; n = n mod 1461;
          n1 = n div 365; n = n mod 365;
          y = y + n100 * 100 + n4 * 4 + n1
      in if n1 = 4 \<or> n100 = 4 then \<lparr>year = y - 1, month = 12, day = 31\<rparr>
         else
           (let leapyear = (n1 = 3 \<and> (n4 \<noteq> 24 \<or> n100 = 3));
                m = (n + 50) div 32;
                preceding = days_before_month_tab m + (if m > 2 \<and> leapyear then 1 else 0)
            in if preceding > n
               then (let m' = m - 1;
                         preceding' = preceding - (mdays m' + (if m' = 2 \<and> leapyear then 1 else 0))
                     in \<lparr>year = y, month = m', day = n - preceding' + 1\<rparr>)
               else \<lparr>year = y, month = m, day = n - preceding + 1\<rparr>))"

text \<open>\<open>d + timedelta(days=n)\<close>: OverflowError when the result leaves the range of dates.\<close>

definition date_add_days :: "date \<Rightarrow> int \<Rightarrow> pyexc + date" where
  "date_add_days d n =
     (let k = toordinal d + n
      in if 0 < k \<and> k \<le> MAXORDINAL then Inr (fromordinal k)
         else Inl (PyExc OverflowError ''date value out of range''))"

section \<open>Relative deltas (dateutil.relativedelta)\<close>

text \<open>
  The fields of a \<open>relativedelta\<close> that the program reaches: whole years, whole months
  and days. The time-of-day and absolute fields stay at their defaults for dates.
\<close>

record relativedelta =
  rd_years :: int
  rd_months :: int
  rd_days :: int

text \<open>\<open>_sign\<close> is \<open>int(copysign(1, x))\<close>: 1 for zero too.\<close>

definition py_sign :: "int \<Rightarrow> int" where
  "py_sign x = (if x < 0 then - 1 else 1)"

text \<open>\<open>_set_months\<close>: months beyond 11 in absolute value carry into years.\<close>

definition set_months :: "int \<Rightarrow> relativedelta" where
  "set_months m =
     (if \<bar>m\<bar> > 11
      then (let s = py_sign m
            in \<lparr>rd_years = ((m * s) div 12) * s, rd_months = ((m * s) mod 12) * s, rd_days = 0\<rparr>)
      else \<lparr>rd_years = 0, rd_months = m, rd_days = 0\<rparr>)"

text \<open>The constructor \<open>relativedelta(months=n)\<close>, with \<open>_fix\<close> carrying months into years.\<close>

definition relativedelta_months :: "int \<Rightarrow> relativedelta" where
  "relativedelta_months n =
     (let r = \<lparr>rd_years = 0, rd_months = n, rd_days = 0\<rparr>
      in if \<bar>rd_months r\<bar> > 11
         then (let s = py_sign (rd_months r)
               in r\<lparr>rd_months := ((rd_months r * s) mod 12) * s,
                    rd_years := rd_years r + ((rd_months r * s) div 12) * s\<rparr>)
         else r)"

text \<open>
  \<open>other + rd\<close> (\<open>__radd__\<close>): years and months move the year and month, the day is
  cut to the length of the target month, \<open>date.replace\<close> validates, and the days are
  added last (adding zero days leaves the date as it is).
\<close>

definition rd_radd :: "relativedelta \<Rightarrow> date \<Rightarrow> pyexc + date" where
  "rd_radd rd other =
     (let y = year other + rd_years rd;
          m = month other;
          (y, m) = (if rd_months rd \<noteq> 0
                    then (let m = m + rd_months rd
                          in if m > 12 then (y + 1, m - 12)
                             else if m < 1 then (y - 1, m + 12)
                             else (y, m))
                    else (y, m))
      in case monthrange_days y m of
           Inl e \<Rightarrow> Inl e
         | Inr n \<Rightarrow>
             (case make_date y m (min n (day other)) of
                Inl e \<Rightarrow> Inl e
              | Inr d \<Rightarrow> if rd_days rd = 0 then Inr d else date_add_days d (rd_days rd)))"

text \<open>
  The loop of \<open>relativedelta(dt1, dt2)\<close> that corrects an overshoot of the month count:
  \<open>up\<close> is the branch \<open>dt1 < dt2\<close> (compare is \<open>gt\<close>, increment is 1), otherwise compare is
  \<open>lt\<close> and the increment is -1. It returns the month count and the shifted date \<open>dtm\<close>.
\<close>

function rd_adjust :: "bool \<Rightarrow> date \<Rightarrow> date \<Rightarrow> int \<Rightarrow> pyexc + (int \<times> date)" where
  "rd_adjust up dt1 dt2 months =
     (case rd_radd (set_months months) dt2 of
        Inl e \<Rightarrow> Inl e
      | Inr dtm \<Rightarrow>
          if (if up then date_less dtm dt1 else date_less dt1 dtm)
          then rd_adjust up dt1 dt2 (months + (if up then 1 else - 1))
          else Inr (months, dtm))"
  by pat_completeness auto

lemma set_months_total: "rd_years (set_months m) * 12 + rd_months (set_months m) = m"
proof (cases "\<bar>m\<bar> > 11")
  case False
  then show ?thesis unfolding set_months_def by simp
next
  case True
  show ?thesis
  proof (cases "m < 0")
    case True
    have "(- m) div 12 * 12 + (- m) mod 12 = - m" by (rule div_mult_mod_eq)
    then have "- ((- m) div 12) * 12 + - ((- m) mod 12) = m" by linarith
    with True \<open>\<bar>m\<bar> > 11\<close> show ?thesis
      unfolding set_months_def py_sign_def Let_def by simp
  next
    case False
    have "m div 12 * 12 + m mod 12 = m" by (rule div_mult_mod_eq)
    with False \<open>\<bar>m\<bar> > 11\<close> show ?thesis
      unfolding set_months_def py_sign_def Let_def by simp
  qed
qed

lemma set_months_days: "rd_days (set_months m) = 0"
  unfolding set_months_def Let_def by simp

lemma rd_radd_index:
  assumes "rd_radd rd d = Inr d'" "rd_days rd = 0"
  shows "12 * year d' + month d' = 12 * (year d + rd_years rd) + month d + rd_months rd"
  using assms unfolding rd_radd_def Let_def make_date_def
  by (auto split: if_splits sum.splits prod.splits)

lemma rd_radd_valid:
  assumes "rd_radd rd d = Inr d'" "rd_days rd = 0"
  shows "valid_date d'"
  using assms unfolding rd_radd_def Let_def make_date_def
  by (auto split: if_splits sum.splits prod.splits)

lemma rd_radd_set_months_index:
  assumes "rd_radd (set_months m) d = Inr d'"
  shows "12 * year d' + month d' = 12 * year d + month d + m"
    and "13 \<le> 12 * year d' + month d'" and "12 * year d' + month d' \<le> 12 * 9999 + 12"
proof -
  have v: "valid_date d'" using rd_radd_valid [OF assms set_months_days] .
  show "12 * year d' + month d' = 12 * year d + month d + m"
    using rd_radd_index [OF assms set_months_days] set_months_total [of m]
    by (simp add: algebra_simps)
  show "13 \<le> 12 * year d' + month d'" "12 * year d' + month d' \<le> 12 * 9999 + 12"
    using v unfolding valid_date_def MINYEAR_def MAXYEAR_def by auto
qed

termination rd_adjust
proof (relation "measure (\<lambda>(up, dt1, dt2, months).
          if up then nat (12 * 9999 + 13 - (12 * year dt2 + month dt2 + months))
          else nat (12 * year dt2 + month dt2 + months - 12))")
  show "wf (measure (\<lambda>(up, dt1, dt2, months).
          if up then nat (12 * 9999 + 13 - (12 * year dt2 + month dt2 + months))
          else nat (12 * year dt2 + month dt2 + months - 12)))" by simp
next
  fix up :: bool and dt1 dt2 :: date and months :: int and dtm :: date
  assume r: "rd_radd (set_months months) dt2 = Inr dtm"
  from rd_radd_set_months_index [OF r]
  show "((up, dt1, dt2, months + (if up then 1 else - 1)), (up, dt1, dt2, months))
         \<in> measure (\<lambda>(up, dt1, dt2, months).
          if up then nat (12 * 9999 + 13 - (12 * year dt2 + month dt2 + months))
          else nat (12 * year dt2 + month dt2 + months - 12))"
    by auto
qed

text \<open>
  \<open>_fix\<close> on the seconds of a difference of dates (\<open>delta.days * 86400\<close>): seconds carry
  into minutes, minutes into hours, hours into days, each with the sign split off.
\<close>

definition carry :: "int \<Rightarrow> int \<Rightarrow> int \<Rightarrow> int \<times> int" where
  "carry limit lo hi =
     (if \<bar>lo\<bar> > limit - 1
      then (let s = py_sign lo in (((lo * s) mod limit) * s, hi + ((lo * s) div limit) * s))
      else (lo, hi))"

definition rd_fix_days :: "int \<Rightarrow> int" where
  "rd_fix_days seconds =
     (let (seconds, minutes) = carry 60 seconds 0;
          (minutes, hours) = carry 60 minutes 0;
          (hours, days) = carry 24 hours 0
      in days)"

text \<open>
  The constructor \<open>relativedelta(dt1, dt2)\<close> on two dates: the month count between the
  two, corrected by the loop, split into years and months; the days are what is left
  between the shifted date and \<open>dt1\<close>.
\<close>

definition relativedelta_between :: "date \<Rightarrow> date \<Rightarrow> pyexc + relativedelta" where
  "relativedelta_between dt1 dt2 =
     (let months = (year dt1 - year dt2) * 12 + (month dt1 - month dt2)
      in case rd_adjust (date_less dt1 dt2) dt1 dt2 months of
           Inl e \<Rightarrow> Inl e
         | Inr (months, dtm) \<Rightarrow>
             Inr ((set_months months)
                    \<lparr>rd_days := rd_fix_days ((toordinal dt1 - toordinal dtm) * 86400)\<rparr>))"

section \<open>models.py\<close>

record datetime =
  dt_date :: date
  dt_micros :: nat

record patent =
  patent_number :: string
  title :: string
  issue_date :: date
  application_number :: string
  filing_date :: "date option"
  inventors :: "string list"
  assignee :: string
  classification_us :: string
  classification_cpc :: string
  classification_locarno :: string
  image_url :: "string option"
  abstract :: "string option"
  status :: string
  first_seen :: datetime
  notified_at :: "datetime option"
  notes_field :: "string option"

text \<open>\<open>Patent.pgr_deadline\<close>: \<open>self.issue_date + relativedelta(months=9)\<close>.\<close>

definition pgr_deadline :: "patent \<Rightarrow> pyexc + date" where
  "pgr_deadline p = rd_radd (relativedelta_months 9) (issue_date p)"

text \<open>
  \<open>Patent.pgr_months_remaining\<close>, with \<open>date.today()\<close> as the argument \<open>today\<close>:
  \<open>delta.months + delta.days / 30.0\<close>. The value is kept exact, as a rational number.
\<close>

definition pgr_months_remaining :: "patent \<Rightarrow> date \<Rightarrow> pyexc + rat" where
  "pgr_months_remaining p today =
     (case pgr_deadline p of
        Inl e \<Rightarrow> Inl e
      | Inr deadline \<Rightarrow>
          (case relativedelta_between deadline today of
             Inl e \<Rightarrow> Inl e
           | Inr delta \<Rightarrow> Inr (of_int (rd_months delta) + of_int (rd_days delta) / 30)))"

text \<open>\<open>Patent.urgency\<close>.\<close>

definition urgency :: "patent \<Rightarrow> date \<Rightarrow> pyexc + string" where
  "urgency p today =
     (case pgr_months_remaining p today of
        Inl e \<Rightarrow> Inl e
      | Inr remaining \<Rightarrow>
          Inr (if remaining \<le> 0 then ''expired''
               else if remaining < 3 then ''high''
               else if remaining < 6 then ''medium''
               else ''low''))"

text \<open>
  The deadline in the words of the specification: the issue date moved forward by a
  number of calendar months, the day cut to the last day of the target month.
\<close>

definition shift_months_clamped :: "date \<Rightarrow> int \<Rightarrow> date" where
  "shift_months_clamped d n =
     (let idx = 12 * year d + (month d - 1) + n;
          y = idx div 12;
          m = idx mod 12 + 1
      in \<lparr>year = y, month = m, day = min (day d) (days_in_month y m)\<rparr>)"

text \<open>The whole months between two dates, years included: what a reader takes
  "the signed calendar month delta" to be.\<close>

definition total_months :: "relativedelta \<Rightarrow> int" where
  "total_months rd = 12 * rd_years rd + rd_months rd"

text \<open>The dataclass constructor \<open>Patent(patent_number, title, issue_date)\<close> with the
  defaults of the other fields; \<open>first_seen\<close> defaults to \<open>datetime.now()\<close>, given here.\<close>

definition new_patent :: "string \<Rightarrow> string \<Rightarrow> date \<Rightarrow> datetime \<Rightarrow> patent" where
  "new_patent pn t d now =
     \<lparr>patent_number = pn, title = t, issue_date = d, application_number = '''',
      filing_date = None, inventors = [], assignee = '''', classification_us = '''',
      classification_cpc = '''', classification_locarno = '''', image_url = None,
      abstract = None, status = ''new'', first_seen = now, notified_at = None,
      notes_field = None\<rparr>"

section \<open>Python strings\<close>

text \<open>
  Strings are lists of characters and the text is ASCII: \<open>upper\<close> and \<open>lower\<close> map the
  letters a..z and A..Z, and the whitespace that \<open>strip\<close> removes is what \<open>str.isspace\<close>
  accepts below code point 128 (tab, line feed, vertical tab, form feed, carriage
  return, the separators 28..31 and the space).
\<close>

definition py_isspace :: "char \<Rightarrow> bool" where
  "py_isspace c = (let n = (of_char c :: nat) in (9 \<le> n \<and> n \<le> 13) \<or> (28 \<le> n \<and> n \<le> 32))"

text \<open>\<open>s.isascii()\<close>: the strings on which this model of \<open>str\<close> is exact.\<close>

definition str_isascii :: "string \<Rightarrow> bool" where
  "str_isascii s = list_all (\<lambda>c. (of_char c :: nat) < 128) s"

definition upper_char :: "char \<Rightarrow> char" where
  "upper_char c = (let n = (of_char c :: nat) in if 97 \<le> n \<and> n \<le> 122 then char_of (n - 32) else c)"

definition lower_char :: "char \<Rightarrow> char" where
  "lower_char c = (let n = (of_char c :: nat) in if 65 \<le> n \<and> n \<le> 90 then char_of (n + 32) else c)"

definition str_upper :: "string \<Rightarrow> string" where
  "str_upper s = map upper_char s"

definition str_lower :: "string \<Rightarrow> string" where
  "str_lower s = map lower_char s"

definition str_strip :: "string \<Rightarrow> string" where
  "str_strip s = rev (dropWhile py_isspace (rev (dropWhile py_isspace s)))"

text \<open>\<open>s.replace(" ", "")\<close>: every space character is removed.\<close>

definition remove_spaces :: "string \<Rightarrow> string" where
  "remove_spaces s = filter (\<lambda>c. c \<noteq> CHR '' '') s"

text \<open>\<open>s.split(sep)\<close> for a one-character separator: always at least one part.\<close>

fun str_split :: "char \<Rightarrow> string \<Rightarrow> string list" where
  "str_split sep [] = [[]]"
| "str_split sep (c # cs) =
     (if c = sep then [] # str_split sep cs
      else (case str_split sep cs of
              [] \<Rightarrow> [[c]]
            | w # ws \<Rightarrow> (c # w) # ws))"

fun startswith :: "string \<Rightarrow> string \<Rightarrow> bool" where
  "startswith s [] = True"
| "startswith [] (p # ps) = False"
| "startswith (c # cs) (p # ps) = (c = p \<and> startswith cs ps)"

text \<open>\<open>sub in s\<close>.\<close>

fun str_contains :: "string \<Rightarrow> string \<Rightarrow> bool" where
  "str_contains [] sub = (sub = [])"
| "str_contains (c # cs) sub = (startswith (c # cs) sub \<or> str_contains cs sub)"

section \<open>matcher.py\<close>

record search_criteria =
  name :: string
  us_classes :: "string list"
  cpc_classes :: "string list"
  keywords_field :: "string list"
  assignee_exclude :: "string list"

text \<open>The normalisation that \<open>_class_matches\<close> applies to the target class and to every
  part of the classification: \<open>strip().upper().replace(" ", "")\<close>.\<close>

definition normalize_class :: "string \<Rightarrow> string" where
  "normalize_class c = remove_spaces (str_upper (str_strip c))"

text \<open>The loop over the classifications: True at the first one with the prefix.\<close>

fun any_startswith :: "string list \<Rightarrow> string \<Rightarrow> bool" where
  "any_startswith [] target = False"
| "any_startswith (cls # rest) target =
     (if startswith cls target then True else any_startswith rest target)"

definition class_matches :: "string \<Rightarrow> string \<Rightarrow> bool" where
  "class_matches patent_classification target_class =
     (if patent_classification = [] \<or> target_class = [] then False
      else (let target_normalized = normalize_class target_class;
                classifications = map normalize_class (str_split (CHR '';'') patent_classification)
            in any_startswith classifications target_normalized))"

text \<open>\<open>pattern.search(text)\<close> for the escaped, lower-cased keyword compiled with
  IGNORECASE: a case-insensitive search for the literal.\<close>

definition search_ignorecase :: "string \<Rightarrow> string \<Rightarrow> bool" where
  "search_ignorecase pat text = str_contains (str_lower text) (str_lower pat)"

definition keyword_matches :: "patent \<Rightarrow> string \<Rightarrow> bool" where
  "keyword_matches p keyword =
     (let keyword_lower = str_lower keyword
      in if title p \<noteq> [] \<and> search_ignorecase keyword_lower (title p) then True
         else (case abstract p of
                 None \<Rightarrow> False
               | Some a \<Rightarrow> a \<noteq> [] \<and> search_ignorecase keyword_lower a))"

fun any_excluded :: "string list \<Rightarrow> string \<Rightarrow> bool" where
  "any_excluded [] assignee_lower = False"
| "any_excluded (excluded # rest) assignee_lower =
     (if str_contains assignee_lower (str_lower excluded) then True
      else any_excluded rest assignee_lower)"

definition is_excluded :: "patent \<Rightarrow> search_criteria \<Rightarrow> bool" where
  "is_excluded p criteria =
     (if assignee_exclude criteria = [] \<or> assignee p = [] then False
      else any_excluded (assignee_exclude criteria) (str_lower (assignee p)))"

definition match_single :: "patent \<Rightarrow> search_criteria \<Rightarrow> string list" where
  "match_single p criteria =
     (if is_excluded p criteria then []
      else
        map (\<lambda>us_class. ''US class: '' @ us_class @ '' (criteria: '' @ name criteria @ '')'')
            (filter (\<lambda>us_class. class_matches (classification_us p) us_class) (us_classes criteria))
        @ map (\<lambda>cpc_class. ''CPC class: '' @ cpc_class @ '' (criteria: '' @ name criteria @ '')'')
            (filter (\<lambda>cpc_class. class_matches (classification_cpc p) cpc_class) (cpc_classes criteria))
        @ map (\<lambda>keyword. ''Keyword: '' @ [CHR 0x27] @ keyword @ [CHR 0x27] @ '' (criteria: ''
                            @ name criteria @ '')'')
            (filter (\<lambda>keyword. keyword_matches p keyword) (keywords_field criteria)))"

text \<open>\<open>PatentMatcher.match\<close>: the matches of every criteria, in the order of the list.\<close>

fun matcher_match :: "search_criteria list \<Rightarrow> patent \<Rightarrow> string list" where
  "matcher_match [] p = []"
| "matcher_match (criteria # rest) p = match_single p criteria @ matcher_match rest p"

text \<open>
  The class check in the words of the specification: both sides non-empty, both
  normalised "by upper-casing and removing whitespace" (every whitespace character,
  wherever it stands), then the prefix test on each part between semicolons.
\<close>

definition normalize_claimed :: "string \<Rightarrow> string" where
  "normalize_claimed s = filter (\<lambda>c. \<not> py_isspace c) (str_upper s)"

definition class_matches_claimed :: "string \<Rightarrow> string \<Rightarrow> bool" where
  "class_matches_claimed patent_classification target_class =
     (patent_classification \<noteq> [] \<and> target_class \<noteq> []
      \<and> list_ex (\<lambda>c. startswith (normalize_claimed c) (normalize_claimed target_class))
            (str_split (CHR '';'') patent_classification))"

section \<open>db.py\<close>

text \<open>
  A row of the table \<open>patents\<close>, one field per column of the schema. The TEXT columns
  that hold a serialised value (ISO dates, JSON lists) are kept as the value itself.
\<close>

record patent_row =
  row_id :: nat
  col_patent_number :: string
  col_application_number :: string
  col_title :: string
  col_issue_date :: date
  col_filing_date :: "date option"
  col_inventors :: "string list"
  col_assignee :: string
  col_classification_us :: string
  col_classification_cpc :: string
  col_classification_locarno :: string
  col_image_url :: "string option"
  col_abstract :: "string option"
  col_pgr_deadline :: date
  col_status :: string
  col_matched_criteria :: "string list option"
  col_first_seen_at :: datetime
  col_notified_at :: "datetime option"
  col_notes :: "string option"
  col_ai_analysis :: "string option"

text \<open>\<open>SearchRun\<close>, which is also the row of the table \<open>search_runs\<close>. The query parameters
  are the window of the search, or nothing (the default empty string).\<close>

record search_run =
  run_at :: datetime
  source :: string
  query_params :: "(date \<times> date) option"
  results_count :: nat
  new_matches_count :: nat
  run_error :: "string option"
  run_duration_seconds :: rat

record database =
  patents :: "patent_row list"
  search_runs :: "search_run list"

definition empty_db :: database where
  "empty_db = \<lparr>patents = [], search_runs = []\<rparr>"

text \<open>\<open>Database.patent_exists\<close>.\<close>

definition patent_exists :: "database \<Rightarrow> string \<Rightarrow> bool" where
  "patent_exists db pn = list_ex (\<lambda>r. col_patent_number r = pn) (patents db)"

text \<open>
  \<open>Database.insert_patent\<close>. The parameters of the INSERT are evaluated first, the
  deadline among them; the UNIQUE constraint on \<open>patent_number\<close> raises IntegrityError,
  which the method turns into False.
\<close>

definition insert_patent ::
  "database \<Rightarrow> patent \<Rightarrow> string list option \<Rightarrow> pyexc + (bool \<times> database)" where
  "insert_patent db p matched_criteria =
     (case pgr_deadline p of
        Inl e \<Rightarrow> Inl e
      | Inr deadline \<Rightarrow>
          if patent_exists db (patent_number p) then Inr (False, db)
          else Inr (True, db\<lparr>patents := patents db @
                 [\<lparr>row_id = Suc (length (patents db)),
                   col_patent_number = patent_number p,
                   col_application_number = application_number p,
                   col_title = title p,
                   col_issue_date = issue_date p,
                   col_filing_date = filing_date p,
                   col_inventors = inventors p,
                   col_assignee = assignee p,
                   col_classification_us = classification_us p,
                   col_classification_cpc = classification_cpc p,
                   col_classification_locarno = classification_locarno p,
                   col_image_url = image_url p,
                   col_abstract = abstract p,
                   col_pgr_deadline = deadline,
                   col_status = status p,
                   col_matched_criteria =
                     (case matched_criteria of
                        None \<Rightarrow> None
                      | Some mc \<Rightarrow> if mc = [] then None else Some mc),
                   col_first_seen_at = first_seen p,
                   col_notified_at = None,
                   col_notes = notes_field p,
                   col_ai_analysis = None\<rparr>]\<rparr>))"

text \<open>\<open>Database._row_to_patent\<close>: the deadline column is not read.\<close>

definition row_to_patent :: "patent_row \<Rightarrow> patent" where
  "row_to_patent r =
     \<lparr>patent_number = col_patent_number r,
      title = col_title r,
      issue_date = col_issue_date r,
      application_number = col_application_number r,
      filing_date = col_filing_date r,
      inventors = col_inventors r,
      assignee = col_assignee r,
      classification_us = col_classification_us r,
      classification_cpc = col_classification_cpc r,
      classification_locarno = col_classification_locarno r,
      image_url = col_image_url r,
      abstract = col_abstract r,
      status = (if col_status r = [] then ''new'' else col_status r),
      first_seen = col_first_seen_at r,
      notified_at = col_notified_at r,
      notes_field = col_notes r\<rparr>"

text \<open>\<open>SELECT * FROM patents WHERE patent_number = ?\<close>, first row.\<close>

definition stored_row :: "database \<Rightarrow> string \<Rightarrow> patent_row option" where
  "stored_row db pn = find (\<lambda>r. col_patent_number r = pn) (patents db)"

text \<open>\<open>Database.get_patent\<close>.\<close>

definition get_patent :: "database \<Rightarrow> string \<Rightarrow> patent option" where
  "get_patent db pn =
     (case stored_row db pn of
        None \<Rightarrow> None
      | Some r \<Rightarrow> Some (row_to_patent r))"

definition get_patent_count :: "database \<Rightarrow> nat" where
  "get_patent_count db = length (patents db)"

text \<open>The UPDATE statements: they change one column of the rows with the number.\<close>

definition update_patent_status :: "database \<Rightarrow> string \<Rightarrow> string \<Rightarrow> database" where
  "update_patent_status db pn st =
     db\<lparr>patents := map (\<lambda>r. if col_patent_number r = pn then r\<lparr>col_status := st\<rparr> else r)
                        (patents db)\<rparr>"

definition mark_notified :: "database \<Rightarrow> string \<Rightarrow> datetime \<Rightarrow> database" where
  "mark_notified db pn now =
     db\<lparr>patents := map (\<lambda>r. if col_patent_number r = pn then r\<lparr>col_notified_at := Some now\<rparr> else r)
                        (patents db)\<rparr>"

definition update_ai_analysis :: "database \<Rightarrow> string \<Rightarrow> string \<Rightarrow> database" where
  "update_ai_analysis db pn analysis_json =
     db\<lparr>patents := map (\<lambda>r. if col_patent_number r = pn
                              then r\<lparr>col_ai_analysis := Some analysis_json\<rparr> else r)
                        (patents db)\<rparr>"

text \<open>\<open>Database.log_search_run\<close>.\<close>

definition log_search_run :: "database \<Rightarrow> search_run \<Rightarrow> database" where
  "log_search_run db run = db\<lparr>search_runs := search_runs db @ [run]\<rparr>"

text \<open>
  \<open>Database.get_last_run_date\<close>: of the runs of the source without an error, the date of
  the one with the latest \<open>run_at\<close> (ISO timestamps order as the moments they denote).
\<close>

definition datetime_less :: "datetime \<Rightarrow> datetime \<Rightarrow> bool" where
  "datetime_less a b =
     (date_less (dt_date a) (dt_date b) \<or> (dt_date a = dt_date b \<and> dt_micros a < dt_micros b))"

fun latest_run_at :: "search_run list \<Rightarrow> datetime option \<Rightarrow> datetime option" where
  "latest_run_at [] best = best"
| "latest_run_at (r # rs) best =
     latest_run_at rs
       (case best of
          None \<Rightarrow> Some (run_at r)
        | Some b \<Rightarrow> if datetime_less b (run_at r) then Some (run_at r) else Some b)"

definition get_last_run_date :: "database \<Rightarrow> string \<Rightarrow> date option" where
  "get_last_run_date db src =
     (case latest_run_at (filter (\<lambda>r. source r = src \<and> run_error r = None) (search_runs db)) None of
        None \<Rightarrow> None
      | Some t \<Rightarrow> Some (dt_date t))"

text \<open>The operations of the store that write, as one type, and a sequence of them
  applied in order (a raise stops the sequence).\<close>

datatype store_op =
    InsertPatent patent "string list option"
  | UpdatePatentStatus string string
  | MarkNotified string datetime
  | UpdateAiAnalysis string string
  | LogSearchRun search_run

fun apply_store_op :: "database \<Rightarrow> store_op \<Rightarrow> pyexc + database" where
  "apply_store_op db (InsertPatent p mc) =
     (case insert_patent db p mc of Inl e \<Rightarrow> Inl e | Inr (ok, db') \<Rightarrow> Inr db')"
| "apply_store_op db (UpdatePatentStatus pn st) = Inr (update_patent_status db pn st)"
| "apply_store_op db (MarkNotified pn now) = Inr (mark_notified db pn now)"
| "apply_store_op db (UpdateAiAnalysis pn js) = Inr (update_ai_analysis db pn js)"
| "apply_store_op db (LogSearchRun run) = Inr (log_search_run db run)"

fun apply_store_ops :: "database \<Rightarrow> store_op list \<Rightarrow> pyexc + database" where
  "apply_store_ops db [] = Inr db"
| "apply_store_ops db (x # xs) =
     (case apply_store_op db x of Inl e \<Rightarrow> Inl e | Inr db' \<Rightarrow> apply_store_ops db' xs)"

section \<open>analyzer.py\<close>

text \<open>
  What \<open>json.loads\<close> returns: Python objects. A float is a rational number or one of
  the three special values; a dict is its list of items (keys distinct).
\<close>

datatype pyfloat = Finite rat | PosInf | NegInf | NaN

datatype json =
    JNull
  | JBool bool
  | JInt int
  | JFloat pyfloat
  | JStr string
  | JList "json list"
  | JDict "(string \<times> json) list"

record analysis_result =
  similarity_score :: int
  risk_level :: string
  recommendation :: string
  reasoning :: json
  patent_image_used :: bool
  product_images_used :: "string list"
  model_used :: string
  analyzed_at :: datetime
  analysis_error :: "string option"

text \<open>The name of the type of an object, as it appears in the text of an exception.\<close>

fun type_name :: "json \<Rightarrow> string" where
  "type_name JNull = ''NoneType''"
| "type_name (JBool b) = ''bool''"
| "type_name (JInt n) = ''int''"
| "type_name (JFloat f) = ''float''"
| "type_name (JStr s) = ''str''"
| "type_name (JList xs) = ''list''"
| "type_name (JDict kvs) = ''dict''"

text \<open>
  The builtin \<open>int(x)\<close>. On a string it parses, which the argument \<open>int_of_str\<close> stands
  for; a float is cut towards zero, infinities and NaN raise; None, lists and dicts
  raise TypeError.
\<close>

fun py_int :: "(string \<Rightarrow> pyexc + int) \<Rightarrow> json \<Rightarrow> pyexc + int" where
  "py_int int_of_str (JInt n) = Inr n"
| "py_int int_of_str (JBool b) = Inr (if b then 1 else 0)"
| "py_int int_of_str (JFloat (Finite r)) = Inr (if r < 0 then \<lceil>r\<rceil> else \<lfloor>r\<rfloor>)"
| "py_int int_of_str (JFloat NaN) = Inl (PyExc ValueError ''cannot convert float NaN to integer'')"
| "py_int int_of_str (JFloat f) =
     Inl (PyExc OverflowError ''cannot convert float infinity to integer'')"
| "py_int int_of_str (JStr s) = int_of_str s"
| "py_int int_of_str v =
     Inl (PyExc TypeError
            (''int() argument must be a string, a bytes-like object or a real number, not ''
             @ [CHR 0x27] @ type_name v @ [CHR 0x27]))"

text \<open>\<open>data.get(key, default)\<close>: a method of dicts only.\<close>

definition data_get :: "json \<Rightarrow> string \<Rightarrow> json \<Rightarrow> pyexc + json" where
  "data_get data key dflt =
     (case data of
        JDict kvs \<Rightarrow> Inr (case map_of kvs key of None \<Rightarrow> dflt | Some v \<Rightarrow> v)
      | _ \<Rightarrow> Inl (PyExc AttributeError
                   ([CHR 0x27] @ type_name data @ [CHR 0x27] @ '' object has no attribute ''
                    @ [CHR 0x27] @ ''get'' @ [CHR 0x27])))"

text \<open>\<open>v in (s1, s2, ...)\<close> for a tuple of strings: only a string can be equal to one.\<close>

definition in_strings :: "json \<Rightarrow> string list \<Rightarrow> bool" where
  "in_strings v allowed = (case v of JStr s \<Rightarrow> s \<in> set allowed | _ \<Rightarrow> False)"

definition str_value :: "json \<Rightarrow> string" where
  "str_value v = (case v of JStr s \<Rightarrow> s | _ \<Rightarrow> [])"

text \<open>\<open>PatentAnalyzer._data_to_result\<close>; \<open>now\<close> is the default of \<open>analyzed_at\<close>.\<close>

definition data_to_result ::
  "(string \<Rightarrow> pyexc + int) \<Rightarrow> datetime \<Rightarrow> json \<Rightarrow> pyexc + analysis_result" where
  "data_to_result int_of_str now data =
     (case data_get data ''similarity_score'' (JInt 0) of
        Inl e \<Rightarrow> Inl e
      | Inr raw_score \<Rightarrow>
     (case py_int int_of_str raw_score of
        Inl e \<Rightarrow> Inl e
      | Inr score \<Rightarrow>
     (let score = max 0 (min 100 score) in
      case data_get data ''risk_level'' (JStr ''none'') of
        Inl e \<Rightarrow> Inl e
      | Inr risk \<Rightarrow>
     (let risk = (if \<not> in_strings risk [''high'', ''medium'', ''low'', ''none'']
                  then ''none'' else str_value risk) in
      case data_get data ''recommendation'' (JStr ''monitor'') of
        Inl e \<Rightarrow> Inl e
      | Inr rec \<Rightarrow>
     (let rec = (if \<not> in_strings rec [''flag'', ''monitor'', ''dismiss'']
                 then ''monitor'' else str_value rec) in
      case data_get data ''reasoning'' (JStr []) of
        Inl e \<Rightarrow> Inl e
      | Inr reason \<Rightarrow>
          Inr \<lparr>similarity_score = score, risk_level = risk, recommendation = rec,
               reasoning = reason, patent_image_used = False, product_images_used = [],
               model_used = [], analyzed_at = now, analysis_error = None\<rparr>)))))"

text \<open>
  The two regular expressions of \<open>_parse_response\<close>, both with DOTALL, as searches for
  the leftmost match. \<open>\{[^{}]*"similarity_score"[^{}]*\}\<close>: an opening brace, then
  characters that are not braces and hold the quoted key, up to a closing brace.
\<close>

definition is_brace :: "char \<Rightarrow> bool" where
  "is_brace c = (c = CHR ''{'' \<or> c = CHR ''}'')"

definition score_key :: string where
  "score_key = [CHR 0x22] @ ''similarity_score'' @ [CHR 0x22]"

fun search_score_object :: "string \<Rightarrow> string option" where
  "search_score_object [] = None"
| "search_score_object (c # cs) =
     (if c = CHR ''{''
      then (let inner = takeWhile (\<lambda>x. \<not> is_brace x) cs;
                rest = dropWhile (\<lambda>x. \<not> is_brace x) cs
            in if (case rest of [] \<Rightarrow> False | b # bs \<Rightarrow> b = CHR ''}'') \<and> str_contains inner score_key
               then Some (c # inner @ ''}'')
               else search_score_object cs)
      else search_score_object cs)"

text \<open>\<open>\{.*?\}\<close>: from the first opening brace to the first closing brace after it.\<close>

definition search_any_object :: "string \<Rightarrow> string option" where
  "search_any_object s =
     (case dropWhile (\<lambda>x. x \<noteq> CHR ''{'') s of
        [] \<Rightarrow> None
      | c # cs \<Rightarrow>
          if CHR ''}'' \<in> set cs then Some (c # takeWhile (\<lambda>x. x \<noteq> CHR ''}'') cs @ ''}'')
          else None)"

text \<open>The result of the fallback, when no strategy gave JSON.\<close>

definition parse_failure_result :: "datetime \<Rightarrow> string \<Rightarrow> analysis_result" where
  "parse_failure_result now response_text =
     \<lparr>similarity_score = 0, risk_level = ''none'', recommendation = ''monitor'',
      reasoning = JStr (''Could not parse AI response. Raw: '' @ take 200 response_text),
      patent_image_used = False, product_images_used = [], model_used = [],
      analyzed_at = now, analysis_error = Some ''parse_failure''\<rparr>"

text \<open>
  One strategy of \<open>_parse_response\<close>: \<open>json.loads\<close> on a candidate inside
  \<open>try ... except json.JSONDecodeError: pass\<close>. The result is None when the strategy
  falls through to the next one; any other exception leaves the method.
\<close>

definition try_loads ::
  "(string \<Rightarrow> pyexc + json) \<Rightarrow> (string \<Rightarrow> pyexc + int) \<Rightarrow> datetime \<Rightarrow> string
     \<Rightarrow> (pyexc + analysis_result) option" where
  "try_loads json_loads int_of_str now candidate =
     (case json_loads candidate of
        Inl e \<Rightarrow> if exc_class_of e = JSONDecodeError then None else Some (Inl e)
      | Inr data \<Rightarrow>
          (case data_to_result int_of_str now data of
             Inl e \<Rightarrow> if exc_class_of e = JSONDecodeError then None else Some (Inl e)
           | Inr res \<Rightarrow> Some (Inr res)))"

text \<open>\<open>PatentAnalyzer._parse_response\<close>; \<open>json.loads\<close> is the argument \<open>json_loads\<close>.\<close>

definition parse_response ::
  "(string \<Rightarrow> pyexc + json) \<Rightarrow> (string \<Rightarrow> pyexc + int) \<Rightarrow> datetime \<Rightarrow> string
     \<Rightarrow> pyexc + analysis_result" where
  "parse_response json_loads int_of_str now response_text =
     (case try_loads json_loads int_of_str now (str_strip response_text) of
        Some r \<Rightarrow> r
      | None \<Rightarrow>
     (case (case search_score_object response_text of
              None \<Rightarrow> None
            | Some m \<Rightarrow> try_loads json_loads int_of_str now m) of
        Some r \<Rightarrow> r
      | None \<Rightarrow>
     (case (case search_any_object response_text of
              None \<Rightarrow> None
            | Some m \<Rightarrow> try_loads json_loads int_of_str now m) of
        Some r \<Rightarrow> r
      | None \<Rightarrow> Inr (parse_failure_result now response_text))))"

text \<open>The result that \<open>analyze\<close> builds in its \<open>except Exception\<close> handler.\<close>

definition call_failure_result :: "string \<Rightarrow> datetime \<Rightarrow> pyexc \<Rightarrow> analysis_result" where
  "call_failure_result model now e =
     \<lparr>similarity_score = 0, risk_level = ''none'', recommendation = ''monitor'',
      reasoning = JStr (''AI analysis failed: '' @ exc_str e),
      patent_image_used = False, product_images_used = [], model_used = model,
      analyzed_at = now, analysis_error = Some (exc_str e)\<rparr>"

text \<open>
  \<open>PatentAnalyzer.analyze\<close>. \<open>api_outcome\<close> is what building the messages and
  \<open>_call_api\<close> give: the text of the response, or the exception that left them.
  \<open>model\<close> is \<open>config.model\<close>; \<open>parsed_at\<close> is the clock when the parser builds its
  result and \<open>now\<close> the clock when \<open>analyze\<close> stamps what it returns.
\<close>

definition analyze ::
  "string \<Rightarrow> (string \<Rightarrow> pyexc + json) \<Rightarrow> (string \<Rightarrow> pyexc + int) \<Rightarrow> datetime \<Rightarrow> datetime
     \<Rightarrow> string option \<Rightarrow> (string \<times> string) list \<Rightarrow> pyexc + string \<Rightarrow> analysis_result" where
  "analyze model json_loads int_of_str parsed_at now patent_image product_images api_outcome =
     (case api_outcome of
        Inl e \<Rightarrow> call_failure_result model now e
      | Inr response_text \<Rightarrow>
          (case parse_response json_loads int_of_str parsed_at response_text of
             Inl e \<Rightarrow> call_failure_result model now e
           | Inr result \<Rightarrow>
               result\<lparr>patent_image_used := (patent_image \<noteq> None),
                      product_images_used := map fst product_images,
                      model_used := model,
                      analyzed_at := now\<rparr>))"



section \<open>config.py and service.py\<close>

record sources_config =
  uspto_api :: bool
  official_gazette :: bool

text \<open>The fields of \<open>Config\<close> that a scan reads.\<close>

record config =
  search_criteria :: "search_criteria list"
  initial_lookback_days :: int
  sources :: sources_config

record alert =
  alert_patent :: patent
  matched_criteria :: "string list"
  criteria_name :: string
  sent_at :: "datetime option"
  ai_analysis :: "analysis_result option"

text \<open>\<open>Alert(patent=patent, matched_criteria=matched)\<close>.\<close>

definition new_alert :: "patent \<Rightarrow> string list \<Rightarrow> alert" where
  "new_alert p matched =
     \<lparr>alert_patent = p, matched_criteria = matched, criteria_name = [], sent_at = None,
      ai_analysis = None\<rparr>"

record scan_result =
  alerts :: "alert list"
  total_fetched :: nat
  new_matches :: nat
  errors :: "string list"
  scan_duration_seconds :: rat

text \<open>
  The readings of the clock during a scan: \<open>date.today()\<close>, and for each source the
  \<open>datetime.now()\<close> of its run and the \<open>time.time()\<close> at its start and end.
\<close>

record scan_clock =
  today :: date
  scan_start :: rat
  scan_end :: rat
  api_run_at :: datetime
  api_start :: rat
  api_end :: rat
  gazette_run_at :: datetime
  gazette_start :: rat
  gazette_end :: rat

text \<open>
  The body of the loop \<open>for patent in patents\<close> of \<open>_search_api\<close> and \<open>_search_gazette\<close>,
  run inside the \<open>try\<close>: it returns the alerts appended so far, the store, and the
  exception that stopped it, if one did.
\<close>

fun process_patents ::
  "search_criteria list \<Rightarrow> patent list \<Rightarrow> database \<Rightarrow> alert list
     \<Rightarrow> alert list \<times> database \<times> pyexc option" where
  "process_patents criteria_list [] db acc = (acc, db, None)"
| "process_patents criteria_list (p # ps) db acc =
     (if patent_exists db (patent_number p) then process_patents criteria_list ps db acc
      else (let matched = matcher_match criteria_list p
            in if matched \<noteq> []
               then (case insert_patent db p (Some matched) of
                       Inl e \<Rightarrow> (acc, db, Some e)
                     | Inr (inserted, db') \<Rightarrow>
                         process_patents criteria_list ps db' (acc @ [new_alert p matched]))
               else process_patents criteria_list ps db acc))"

text \<open>
  What follows the fetch in both search functions: the counts of the run, the loop, the
  \<open>except Exception\<close> handler with the prefix of the source, and the log of the run.
  The result is the triple the function returns, and the store.
\<close>

definition finish_search ::
  "search_criteria list \<Rightarrow> database \<Rightarrow> search_run \<Rightarrow> string \<Rightarrow> rat
     \<Rightarrow> (date \<times> date) option \<Rightarrow> pyexc + patent list
     \<Rightarrow> (alert list \<times> nat \<times> string option) \<times> database" where
  "finish_search criteria_list db run label duration params fetched =
     (case fetched of
        Inl e \<Rightarrow>
          (([], 0, Some (label @ exc_str e)),
           log_search_run db
             (run\<lparr>run_error := Some (exc_str e), run_duration_seconds := duration,
                  query_params := params\<rparr>))
      | Inr ps \<Rightarrow>
          (case process_patents criteria_list ps db [] of
             (found, db', None) \<Rightarrow>
               ((found, length ps, None),
                log_search_run db'
                  (run\<lparr>results_count := length ps, new_matches_count := length found,
                       run_duration_seconds := duration, query_params := params\<rparr>))
           | (found, db', Some e) \<Rightarrow>
               ((found, length ps, Some (label @ exc_str e)),
                log_search_run db'
                  (run\<lparr>results_count := length ps, run_error := Some (exc_str e),
                       run_duration_seconds := duration, query_params := params\<rparr>))))"

text \<open>\<open>SearchRun(run_at=..., source=...)\<close> with the defaults of the other fields.\<close>

definition new_search_run :: "datetime \<Rightarrow> string \<Rightarrow> search_run" where
  "new_search_run started src =
     \<lparr>run_at = started, source = src, query_params = None, results_count = 0,
      new_matches_count = 0, run_error = None, run_duration_seconds = 0\<rparr>"

text \<open>
  The window of \<open>_search_api\<close>: the given dates, or the date of the last run of the source
  without an error, or today minus the lookback (a subtraction that can leave the range
  of dates, outside the \<open>try\<close>).
\<close>

definition api_window ::
  "config \<Rightarrow> database \<Rightarrow> date option \<Rightarrow> date option \<Rightarrow> date \<Rightarrow> pyexc + (date \<times> date)" where
  "api_window cfg db date_from date_to today_date =
     (case (case date_from of
              Some d \<Rightarrow> Inr d
            | None \<Rightarrow>
                (case get_last_run_date db ''api'' of
                   Some last_run \<Rightarrow> Inr last_run
                 | None \<Rightarrow> date_add_days today_date (- initial_lookback_days cfg))) of
        Inl e \<Rightarrow> Inl e
      | Inr d_from \<Rightarrow>
          Inr (d_from, (case date_to of Some d \<Rightarrow> d | None \<Rightarrow> today_date)))"

text \<open>The keywords of all the criteria, which narrow the query; None when there are none.\<close>

definition api_keywords :: "config \<Rightarrow> string list option" where
  "api_keywords cfg =
     (let all_keywords = concat (map keywords_field (search_criteria cfg))
      in if all_keywords \<noteq> [] then Some all_keywords else None)"

text \<open>
  \<open>_search_api\<close>. \<open>api_fetch\<close> is \<open>client.search_design_patents\<close>: the patents of a window
  and keywords, or the exception it raises.
\<close>

definition search_api ::
  "config \<Rightarrow> database \<Rightarrow> (date \<Rightarrow> date \<Rightarrow> string list option \<Rightarrow> pyexc + patent list)
     \<Rightarrow> date option \<Rightarrow> date option \<Rightarrow> scan_clock
     \<Rightarrow> pyexc + ((alert list \<times> nat \<times> string option) \<times> database)" where
  "search_api cfg db api_fetch date_from date_to clock =
     (case api_window cfg db date_from date_to (today clock) of
        Inl e \<Rightarrow> Inl e
      | Inr (d_from, d_to) \<Rightarrow>
          Inr (finish_search (search_criteria cfg) db (new_search_run (api_run_at clock) ''api'')
                 ''API search failed: '' (api_end clock - api_start clock) (Some (d_from, d_to))
                 (api_fetch d_from d_to (api_keywords cfg))))"

text \<open>\<open>_search_gazette\<close>. \<open>gazette_fetch\<close> is the outcome of \<open>scraper.scrape_current_week()\<close>.\<close>

definition search_gazette ::
  "config \<Rightarrow> database \<Rightarrow> pyexc + patent list \<Rightarrow> scan_clock
     \<Rightarrow> (alert list \<times> nat \<times> string option) \<times> database" where
  "search_gazette cfg db gazette_fetch clock =
     finish_search (search_criteria cfg) db (new_search_run (gazette_run_at clock) ''gazette'')
       ''Gazette scrape failed: '' (gazette_end clock - gazette_start clock) None gazette_fetch"

text \<open>The update of the \<open>ScanResult\<close> after a source: alerts, counts and the error.\<close>

definition add_source_result :: "scan_result \<Rightarrow> alert list \<times> nat \<times> string option \<Rightarrow> scan_result" where
  "add_source_result result out =
     (case out of (src_alerts, src_fetched, src_error) \<Rightarrow>
        result\<lparr>alerts := alerts result @ src_alerts,
               total_fetched := total_fetched result + src_fetched,
               new_matches := new_matches result + length src_alerts,
               errors := (case src_error of
                            None \<Rightarrow> errors result
                          | Some e \<Rightarrow> if e \<noteq> [] then errors result @ [e] else errors result)\<rparr>)"

text \<open>\<open>run_scan\<close>, without a progress callback.\<close>

definition run_scan ::
  "config \<Rightarrow> database \<Rightarrow> date option \<Rightarrow> date option
     \<Rightarrow> (date \<Rightarrow> date \<Rightarrow> string list option \<Rightarrow> pyexc + patent list) \<Rightarrow> pyexc + patent list
     \<Rightarrow> scan_clock \<Rightarrow> pyexc + (scan_result \<times> database)" where
  "run_scan cfg db date_from date_to api_fetch gazette_fetch clock =
     (let result = \<lparr>alerts = [], total_fetched = 0, new_matches = 0, errors = [],
                    scan_duration_seconds = 0\<rparr>
      in case (if uspto_api (sources cfg)
               then (case search_api cfg db api_fetch date_from date_to clock of
                       Inl e \<Rightarrow> Inl e
                     | Inr (out, db') \<Rightarrow> Inr (add_source_result result out, db'))
               else Inr (result, db)) of
           Inl e \<Rightarrow> Inl e
         | Inr (result, db) \<Rightarrow>
             (case (if official_gazette (sources cfg)
                    then (case search_gazette cfg db gazette_fetch clock of
                            (out, db') \<Rightarrow> (add_source_result result out, db'))
                    else (result, db)) of
                (result, db) \<Rightarrow>
                  Inr (result\<lparr>scan_duration_seconds := scan_end clock - scan_start clock\<rparr>, db)))"

text \<open>The candidates that a scan fetches: the output of each enabled source that did
  not raise.\<close>

definition candidates_of :: "pyexc + patent list \<Rightarrow> patent list" where
  "candidates_of fetched = (case fetched of Inl e \<Rightarrow> [] | Inr ps \<Rightarrow> ps)"

definition scan_candidates :: "config \<Rightarrow> pyexc + patent list \<Rightarrow> pyexc + patent list \<Rightarrow> patent list" where
  "scan_candidates cfg api_out gazette_out =
     (if uspto_api (sources cfg) then candidates_of api_out else [])
     @ (if official_gazette (sources cfg) then candidates_of gazette_out else [])"

section \<open>Values of the test suite\<close>

text \<open>The criteria and the patent of \<open>tests/test_service.py\<close>, with both sources enabled,
  and a second patent and an unrelated one next to it.\<close>

definition test_config :: config where
  "test_config =
     \<lparr>search_criteria =
        [\<lparr>name = ''Test'', us_classes = [''D16/300''], cpc_classes = [],
          keywords_field = [''eyeglasses''], assignee_exclude = []\<rparr>],
      initial_lookback_days = 90,
      sources = \<lparr>uspto_api = True, official_gazette = True\<rparr>\<rparr>"

definition test_clock :: scan_clock where
  "test_clock =
     \<lparr>today = \<lparr>year = 2026, month = 3, day = 1\<rparr>, scan_start = 0, scan_end = 5,
      api_run_at = \<lparr>dt_date = \<lparr>year = 2026, month = 3, day = 1\<rparr>, dt_micros = 1\<rparr>,
      api_start = 0, api_end = 2,
      gazette_run_at = \<lparr>dt_date = \<lparr>year = 2026, month = 3, day = 1\<rparr>, dt_micros = 2\<rparr>,
      gazette_start = 2, gazette_end = 5\<rparr>"

definition test_patent :: "string \<Rightarrow> string \<Rightarrow> string \<Rightarrow> patent" where
  "test_patent pn t cls =
     (new_patent pn t \<lparr>year = 2026, month = 2, day = 18\<rparr>
        \<lparr>dt_date = \<lparr>year = 2026, month = 3, day = 1\<rparr>, dt_micros = 0\<rparr>)
       \<lparr>classification_us := cls\<rparr>"

section \<open>Facts about the calendar model\<close>

lemma rd_fix_days_exact: "rd_fix_days (n * 86400) = n"
  unfolding rd_fix_days_def carry_def py_sign_def Let_def
  by (auto simp: abs_if split: prod.splits if_splits)

lemma relativedelta_months_9: "relativedelta_months 9 = \<lparr>rd_years = 0, rd_months = 9, rd_days = 0\<rparr>"
  unfolding relativedelta_months_def Let_def by simp

lemma shift9_early:
  assumes "1 \<le> month d" "month d \<le> 3"
  shows "shift_months_clamped d 9 =
           \<lparr>year = year d, month = month d + 9, day = min (day d) (days_in_month (year d) (month d + 9))\<rparr>"
proof -
  define idx where "idx = 12 * year d + (month d - 1) + 9"
  have a: "idx div 12 = year d" unfolding idx_def using assms by presburger
  have b: "idx mod 12 + 1 = month d + 9" unfolding idx_def using assms by presburger
  show ?thesis unfolding shift_months_clamped_def Let_def idx_def [symmetric] a b by (rule refl)
qed

lemma shift9_late:
  assumes "4 \<le> month d" "month d \<le> 12"
  shows "shift_months_clamped d 9 =
           \<lparr>year = year d + 1, month = month d - 3, day = min (day d) (days_in_month (year d + 1) (month d - 3))\<rparr>"
proof -
  define idx where "idx = 12 * year d + (month d - 1) + 9"
  have a: "idx div 12 = year d + 1" unfolding idx_def using assms by presburger
  have b: "idx mod 12 + 1 = month d - 3" unfolding idx_def using assms by presburger
  show ?thesis unfolding shift_months_clamped_def Let_def idx_def [symmetric] a b by (rule refl)
qed

lemma days_in_month_ge_28: "28 \<le> days_in_month y m"
  unfolding days_in_month_def mdays_def by simp


text \<open>What the code returns against the month delta with its years: the difference is
  twelve times the years of the relative delta.\<close>

lemma pgr_months_remaining_misses_years:
  assumes "pgr_deadline p = Inr deadline" and "relativedelta_between deadline td = Inr delta"
  shows "pgr_months_remaining p td
           = Inr (of_int (total_months delta) - 12 * of_int (rd_years delta)
                  + of_int (rd_days delta) / 30)"
  using assms unfolding pgr_months_remaining_def total_months_def by simp

text \<open>Beyond the last year of \<open>datetime.date\<close> the deadline raises ValueError.\<close>

lemma pgr_deadline_beyond_maxyear:
  assumes v: "valid_date (issue_date p)"
      and r: "year (shift_months_clamped (issue_date p) 9) > MAXYEAR"
  shows "\<exists>e. pgr_deadline p = Inl e \<and> exc_class_of e = ValueError"
proof -
  let ?d = "issue_date p"
  from v have m: "1 \<le> month ?d" "month ?d \<le> 12" and y: "year ?d \<le> MAXYEAR"
    unfolding valid_date_def by auto
  have late: "4 \<le> month ?d"
  proof (rule ccontr)
    assume "\<not> 4 \<le> month ?d"
    then have "month ?d \<le> 3" by simp
    from shift9_early [OF m(1) this] r y show False by simp
  qed
  from shift9_late [OF late m(2)] r have big: "year ?d + 1 > MAXYEAR" by simp
  show ?thesis
    unfolding pgr_deadline_def relativedelta_months_9 rd_radd_def
    using m late big
    by (simp add: monthrange_days_def make_date_def valid_date_def Let_def)
qed

section \<open>Facts about strings and the matcher\<close>

lemma str_split_nonempty: "str_split sep s \<noteq> []"
  by (induction s) (auto split: list.splits)



lemma any_startswith_empty: "cs \<noteq> [] \<Longrightarrow> any_startswith cs []"
  by (cases cs) auto

lemma str_strip_all_space:
  assumes "\<forall>c \<in> set s. py_isspace c"
  shows "str_strip s = []"
proof -
  from assms have d: "dropWhile py_isspace s = []" by simp
  show ?thesis unfolding str_strip_def d by simp
qed


section \<open>Facts about the store\<close>

lemma patent_exists_stored_row: "patent_exists db pn = (stored_row db pn \<noteq> None)"
  unfolding patent_exists_def stored_row_def
  by (induction "patents db" arbitrary: db) (auto simp: list_ex_iff find_None_iff)

lemma find_append_Some: "find P xs = Some r \<Longrightarrow> find P (xs @ ys) = Some r"
  by (induction xs) (auto split: if_splits)

lemma find_append_None: "find P xs = None \<Longrightarrow> find P (xs @ ys) = find P ys"
  by (induction xs) (auto split: if_splits)

lemma find_map_same_key:
  assumes "\<And>r. P (f r) = P r"
  shows "find P (map f xs) = map_option f (find P xs)"
  using assms by (induction xs) auto

lemma insert_patent_duplicate:
  assumes "patent_exists db (patent_number p)" "pgr_deadline p = Inr d"
  shows "insert_patent db p mc = Inr (False, db)"
  using assms unfolding insert_patent_def by simp

lemma insert_patent_new_row:
  assumes "insert_patent db p mc = Inr (True, db')"
  shows "\<exists>r. patents db' = patents db @ [r] \<and> search_runs db' = search_runs db
           \<and> col_patent_number r = patent_number p
           \<and> col_first_seen_at r = first_seen p \<and> col_issue_date r = issue_date p
           \<and> pgr_deadline p = Inr (col_pgr_deadline r)
           \<and> \<not> patent_exists db (patent_number p)"
  using assms unfolding insert_patent_def
  by (auto split: sum.splits if_splits)

lemma insert_patent_False:
  assumes "insert_patent db p mc = Inr (False, db')"
  shows "db' = db"
  using assms unfolding insert_patent_def
  by (auto split: sum.splits if_splits)

lemma stored_row_after_insert:
  assumes "insert_patent db p mc = Inr (True, db')"
  shows "map_option col_first_seen_at (stored_row db' (patent_number p)) = Some (first_seen p)"
proof -
  from insert_patent_new_row [OF assms] obtain r where
    r: "patents db' = patents db @ [r]" "col_patent_number r = patent_number p"
       "col_first_seen_at r = first_seen p" "\<not> patent_exists db (patent_number p)"
    by blast
  from r(4) have "find (\<lambda>r. col_patent_number r = patent_number p) (patents db) = None"
    unfolding patent_exists_stored_row stored_row_def by simp
  then have "find (\<lambda>r. col_patent_number r = patent_number p) (patents db @ [r]) = Some r"
    using r(2) by (simp add: find_append_None)
  then show ?thesis unfolding stored_row_def r(1) using r(3) by simp
qed

text \<open>No operation of the store removes a row or changes the number, the first-seen
  timestamp or the deadline column of a row that is there.\<close>

lemma apply_store_op_keeps_row:
  assumes "apply_store_op db x = Inr db'" and "stored_row db pn = Some r"
  shows "\<exists>r'. stored_row db' pn = Some r' \<and> col_first_seen_at r' = col_first_seen_at r
              \<and> col_pgr_deadline r' = col_pgr_deadline r \<and> col_issue_date r' = col_issue_date r"
proof (cases x)
  case (InsertPatent p mc)
  with assms(1) obtain ok where i: "insert_patent db p mc = Inr (ok, db')"
    by (auto split: sum.splits)
  show ?thesis
  proof (cases ok)
    case True
    with i have "insert_patent db p mc = Inr (True, db')" by simp
    from insert_patent_new_row [OF this] obtain r0 where "patents db' = patents db @ [r0]" by blast
    then show ?thesis using assms(2) unfolding stored_row_def by (simp add: find_append_Some)
  next
    case False
    with i have "insert_patent db p mc = Inr (False, db')" by simp
    from insert_patent_False [OF this] have "db' = db" .
    then show ?thesis using assms(2) by simp
  qed
next
  case (UpdatePatentStatus n st)
  let ?f = "\<lambda>r. if col_patent_number r = n then r\<lparr>col_status := st\<rparr> else r"
  have "find (\<lambda>r. col_patent_number r = pn) (map ?f (patents db))
          = map_option ?f (find (\<lambda>r. col_patent_number r = pn) (patents db))"
    by (rule find_map_same_key) simp
  with UpdatePatentStatus assms show ?thesis
    unfolding stored_row_def by (auto simp: update_patent_status_def)
next
  case (MarkNotified n now)
  let ?f = "\<lambda>r. if col_patent_number r = n then r\<lparr>col_notified_at := Some now\<rparr> else r"
  have "find (\<lambda>r. col_patent_number r = pn) (map ?f (patents db))
          = map_option ?f (find (\<lambda>r. col_patent_number r = pn) (patents db))"
    by (rule find_map_same_key) simp
  with MarkNotified assms show ?thesis
    unfolding stored_row_def by (auto simp: mark_notified_def)
next
  case (UpdateAiAnalysis n js)
  let ?f = "\<lambda>r. if col_patent_number r = n then r\<lparr>col_ai_analysis := Some js\<rparr> else r"
  have "find (\<lambda>r. col_patent_number r = pn) (map ?f (patents db))
          = map_option ?f (find (\<lambda>r. col_patent_number r = pn) (patents db))"
    by (rule find_map_same_key) simp
  with UpdateAiAnalysis assms show ?thesis
    unfolding stored_row_def by (auto simp: update_ai_analysis_def)
next
  case (LogSearchRun run)
  with assms show ?thesis unfolding stored_row_def by (auto simp: log_search_run_def)
qed

lemma apply_store_ops_keeps_row:
  assumes "apply_store_ops db xs = Inr db'" and "stored_row db pn = Some r"
  shows "\<exists>r'. stored_row db' pn = Some r' \<and> col_first_seen_at r' = col_first_seen_at r
              \<and> col_pgr_deadline r' = col_pgr_deadline r \<and> col_issue_date r' = col_issue_date r"
  using assms
proof (induction xs arbitrary: db r)
  case Nil
  then show ?case by simp
next
  case (Cons x xs)
  from Cons.prems(1) obtain db1 where s: "apply_store_op db x = Inr db1"
    and t: "apply_store_ops db1 xs = Inr db'"
    by (auto split: sum.splits)
  from apply_store_op_keeps_row [OF s Cons.prems(2)] obtain r1 where
    r1: "stored_row db1 pn = Some r1" "col_first_seen_at r1 = col_first_seen_at r"
        "col_pgr_deadline r1 = col_pgr_deadline r" "col_issue_date r1 = col_issue_date r"
    by blast
  from Cons.IH [OF t r1(1)] r1 show ?case by auto
qed

lemma insert_patent_fresh:
  assumes "\<not> patent_exists db (patent_number p)" "pgr_deadline p = Inr d"
  shows "\<exists>db'. insert_patent db p mc = Inr (True, db')"
  using assms unfolding insert_patent_def by simp

lemma pgr_deadline_example:
  "pgr_deadline (new_patent pn t \<lparr>year = 2026, month = 1, day = 15\<rparr> fs)
     = Inr \<lparr>year = 2026, month = 10, day = 15\<rparr>"
  unfolding pgr_deadline_def relativedelta_months_def rd_radd_def new_patent_def
  by (simp add: monthrange_days_def make_date_def valid_date_def days_in_month_def mdays_def
                MINYEAR_def MAXYEAR_def)

lemma pgr_deadline_row_to_patent:
  "pgr_deadline (row_to_patent r) = rd_radd (relativedelta_months 9) (col_issue_date r)"
  unfolding pgr_deadline_def row_to_patent_def by simp

section \<open>Facts about the scan\<close>

lemma patent_exists_search_runs [simp]:
  "patent_exists (db\<lparr>search_runs := rs\<rparr>) pn = patent_exists db pn"
  unfolding patent_exists_def by simp

lemma patent_exists_log_search_run [simp]:
  "patent_exists (log_search_run db run) pn = patent_exists db pn"
  unfolding patent_exists_def log_search_run_def by simp

lemma patents_log_search_run [simp]: "patents (log_search_run db run) = patents db"
  unfolding log_search_run_def by simp

lemma search_runs_log_search_run [simp]:
  "search_runs (log_search_run db run) = search_runs db @ [run]"
  unfolding log_search_run_def by simp

lemma insert_patent_search_runs:
  "insert_patent (db\<lparr>search_runs := rs\<rparr>) p mc =
     (case insert_patent db p mc of
        Inl e \<Rightarrow> Inl e
      | Inr (ok, db') \<Rightarrow> Inr (ok, db'\<lparr>search_runs := rs\<rparr>))"
  unfolding insert_patent_def by (auto split: sum.splits)

lemma process_patents_skip:
  "patent_exists db (patent_number p) \<or> matcher_match cl p = []
     \<Longrightarrow> process_patents cl (p # ps) db acc = process_patents cl ps db acc"
  by (auto simp: Let_def)

lemma process_patents_insert:
  "\<not> patent_exists db (patent_number p) \<Longrightarrow> matcher_match cl p \<noteq> []
     \<Longrightarrow> insert_patent db p (Some (matcher_match cl p)) = Inr (ok, db1)
     \<Longrightarrow> process_patents cl (p # ps) db acc
           = process_patents cl ps db1 (acc @ [new_alert p (matcher_match cl p)])"
  by (simp add: Let_def)

lemma process_patents_raise:
  "\<not> patent_exists db (patent_number p) \<Longrightarrow> matcher_match cl p \<noteq> []
     \<Longrightarrow> insert_patent db p (Some (matcher_match cl p)) = Inl e
     \<Longrightarrow> process_patents cl (p # ps) db acc = (acc, db, Some e)"
  by (simp add: Let_def)

lemma process_patents_search_runs:
  "process_patents cl ps (db\<lparr>search_runs := rs\<rparr>) acc =
     (case process_patents cl ps db acc of
        (found, db', e) \<Rightarrow> (found, db'\<lparr>search_runs := rs\<rparr>, e))"
proof (induction ps arbitrary: db acc)
  case Nil
  show ?case by simp
next
  case (Cons p ps)
  show ?case
  proof (cases "patent_exists db (patent_number p) \<or> matcher_match cl p = []")
    case True
    then have "patent_exists (db\<lparr>search_runs := rs\<rparr>) (patent_number p) \<or> matcher_match cl p = []"
      by simp
    from process_patents_skip [OF this] process_patents_skip [OF True] Cons.IH
    show ?thesis by simp
  next
    case False
    then have n: "\<not> patent_exists db (patent_number p)" and m: "matcher_match cl p \<noteq> []" by auto
    from n have n': "\<not> patent_exists (db\<lparr>search_runs := rs\<rparr>) (patent_number p)" by simp
    show ?thesis
    proof (cases "insert_patent db p (Some (matcher_match cl p))")
      case (Inl e)
      then have "insert_patent (db\<lparr>search_runs := rs\<rparr>) p (Some (matcher_match cl p)) = Inl e"
        by (simp add: insert_patent_search_runs)
      from process_patents_raise [OF n' m this] process_patents_raise [OF n m Inl]
      show ?thesis by simp
    next
      case (Inr y)
      obtain ok db1 where y: "y = (ok, db1)" by (cases y)
      with Inr have i: "insert_patent db p (Some (matcher_match cl p)) = Inr (ok, db1)" by simp
      then have "insert_patent (db\<lparr>search_runs := rs\<rparr>) p (Some (matcher_match cl p))
                   = Inr (ok, db1\<lparr>search_runs := rs\<rparr>)"
        by (simp add: insert_patent_search_runs)
      from process_patents_insert [OF n' m this] process_patents_insert [OF n m i] Cons.IH
      show ?thesis by simp
    qed
  qed
qed

lemma process_patents_keeps_runs:
  "process_patents cl ps db acc = (found, db', e) \<Longrightarrow> search_runs db' = search_runs db"
proof (induction ps arbitrary: db acc)
  case Nil
  then show ?case by simp
next
  case (Cons p ps)
  show ?case
  proof (cases "patent_exists db (patent_number p) \<or> matcher_match cl p = []")
    case True
    from Cons.prems have "process_patents cl ps db acc = (found, db', e)"
      unfolding process_patents_skip [OF True] .
    from Cons.IH [OF this] show ?thesis .
  next
    case False
    then have n: "\<not> patent_exists db (patent_number p)" and m: "matcher_match cl p \<noteq> []" by auto
    show ?thesis
    proof (cases "insert_patent db p (Some (matcher_match cl p))")
      case (Inl x)
      from Cons.prems show ?thesis unfolding process_patents_raise [OF n m Inl] by simp
    next
      case (Inr y)
      obtain ok db1 where y: "y = (ok, db1)" by (cases y)
      with Inr have i: "insert_patent db p (Some (matcher_match cl p)) = Inr (ok, db1)" by simp
      then have s: "search_runs db1 = search_runs db"
        unfolding insert_patent_def by (auto split: sum.splits if_splits)
      from Cons.prems
      have "process_patents cl ps db1 (acc @ [new_alert p (matcher_match cl p)]) = (found, db', e)"
        unfolding process_patents_insert [OF n m i] .
      from Cons.IH [OF this] s show ?thesis by simp
    qed
  qed
qed

text \<open>A loop over candidates that are all tracked or match nothing changes nothing.\<close>

lemma process_patents_noop:
  assumes "\<forall>p \<in> set ps. patent_exists db (patent_number p) \<or> matcher_match cl p = []"
  shows "process_patents cl ps db acc = (acc, db, None)"
  using assms
proof (induction ps)
  case Nil
  show ?case by simp
next
  case (Cons p ps)
  then have "patent_exists db (patent_number p) \<or> matcher_match cl p = []" by simp
  from process_patents_skip [OF this] Cons show ?case by simp
qed

lemma insert_patent_keeps_existing:
  assumes "insert_patent db p mc = Inr (ok, db')" "patent_exists db pn"
  shows "patent_exists db' pn"
  using assms unfolding insert_patent_def patent_exists_def
  by (auto split: sum.splits if_splits)

lemma insert_patent_then_exists:
  assumes "insert_patent db p mc = Inr (ok, db')"
  shows "patent_exists db' (patent_number p)"
  using assms unfolding insert_patent_def patent_exists_def
  by (auto split: sum.splits if_splits)

text \<open>When every deadline can be computed, the loop runs to its end; afterwards every
  candidate is tracked or matches nothing, and nothing tracked before is lost.\<close>

lemma process_patents_completes:
  assumes "\<forall>p \<in> set ps. \<exists>d. pgr_deadline p = Inr d"
  shows "\<exists>found db'. process_patents cl ps db acc = (found, db', None)
           \<and> (\<forall>pn. patent_exists db pn \<longrightarrow> patent_exists db' pn)
           \<and> (\<forall>p \<in> set ps. patent_exists db' (patent_number p) \<or> matcher_match cl p = [])"
  using assms
proof (induction ps arbitrary: db acc)
  case Nil
  show ?case by simp
next
  case (Cons p ps)
  from Cons.prems have wf: "\<forall>q \<in> set ps. \<exists>d. pgr_deadline q = Inr d"
    and pd: "\<exists>d. pgr_deadline p = Inr d" by auto
  show ?case
  proof (cases "patent_exists db (patent_number p) \<or> matcher_match cl p = []")
    case True
    from Cons.IH [OF wf, of db acc] obtain found db' where
      r: "process_patents cl ps db acc = (found, db', None)"
         "\<forall>pn. patent_exists db pn \<longrightarrow> patent_exists db' pn"
         "\<forall>q \<in> set ps. patent_exists db' (patent_number q) \<or> matcher_match cl q = []"
      by blast
    from r(1) have "process_patents cl (p # ps) db acc = (found, db', None)"
      unfolding process_patents_skip [OF True] .
    moreover from True r(2) have "patent_exists db' (patent_number p) \<or> matcher_match cl p = []"
      by blast
    ultimately show ?thesis using r(2,3) by auto
  next
    case False
    from pd obtain d where d: "pgr_deadline p = Inr d" by blast
    from False d obtain db1 where
      i: "insert_patent db p (Some (matcher_match cl p)) = Inr (True, db1)"
      unfolding insert_patent_def by simp
    from Cons.IH [OF wf, of db1 "acc @ [new_alert p (matcher_match cl p)]"] obtain found db' where
      r: "process_patents cl ps db1 (acc @ [new_alert p (matcher_match cl p)]) = (found, db', None)"
         "\<forall>pn. patent_exists db1 pn \<longrightarrow> patent_exists db' pn"
         "\<forall>q \<in> set ps. patent_exists db' (patent_number q) \<or> matcher_match cl q = []"
      by blast
    from False have n: "\<not> patent_exists db (patent_number p)" and m: "matcher_match cl p \<noteq> []"
      by auto
    from r(1) have "process_patents cl (p # ps) db acc = (found, db', None)"
      unfolding process_patents_insert [OF n m i] .
    moreover have "\<forall>pn. patent_exists db pn \<longrightarrow> patent_exists db' pn"
      using insert_patent_keeps_existing [OF i] r(2) by blast
    moreover have "patent_exists db' (patent_number p)"
      using insert_patent_then_exists [OF i] r(2) by blast
    ultimately show ?thesis using r(3) by auto
  qed
qed

lemma database_with_runs: "(db :: database)\<lparr>search_runs := rs\<rparr> = \<lparr>patents = patents db, search_runs = rs\<rparr>"
  by (cases db) simp

lemma process_patents_after_log:
  assumes "process_patents cl ps db acc = (found, db', e)"
  shows "process_patents cl ps (log_search_run db run) acc
           = (found, \<lparr>patents = patents db', search_runs = search_runs db @ [run]\<rparr>, e)"
  unfolding log_search_run_def process_patents_search_runs assms
  by (simp add: database_with_runs)

lemma finish_search_fetch_raises:
  "finish_search cl db run label duration params (Inl e) =
     (([], 0, Some (label @ exc_str e)),
      log_search_run db
        (run\<lparr>run_error := Some (exc_str e), run_duration_seconds := duration,
             query_params := params\<rparr>))"
  by (simp add: finish_search_def)

lemma finish_search_completes:
  assumes "process_patents cl ps db [] = (found, db', None)"
  shows "finish_search cl db run label duration params (Inr ps) =
     ((found, length ps, None),
      log_search_run db'
        (run\<lparr>results_count := length ps, new_matches_count := length found,
             run_duration_seconds := duration, query_params := params\<rparr>))"
  by (simp add: finish_search_def assms)

lemma finish_search_loop_raises:
  assumes "process_patents cl ps db [] = (found, db', Some e)"
  shows "finish_search cl db run label duration params (Inr ps) =
     ((found, length ps, Some (label @ exc_str e)),
      log_search_run db'
        (run\<lparr>results_count := length ps, run_error := Some (exc_str e),
             run_duration_seconds := duration, query_params := params\<rparr>))"
  by (simp add: finish_search_def assms)

lemma run_scan_api_raises:
  assumes en: "uspto_api (sources cfg)" "official_gazette (sources cfg)"
      and w: "api_window cfg db date_from date_to (today clock) = Inr (d_from, d_to)"
      and l: "process_patents (search_criteria cfg) ps db [] = (found, db', None)"
      and f: "api_fetch d_from d_to (api_keywords cfg) = Inl e"
  shows "run_scan cfg db date_from date_to api_fetch (Inr ps) clock =
           Inr (\<lparr>alerts = found, total_fetched = length ps, new_matches = length found,
                 errors = [''API search failed: '' @ exc_str e],
                 scan_duration_seconds = scan_end clock - scan_start clock\<rparr>,
                \<lparr>patents = patents db',
                 search_runs = search_runs db @
                   [\<lparr>run_at = api_run_at clock, source = ''api'',
                     query_params = Some (d_from, d_to), results_count = 0,
                     new_matches_count = 0, run_error = Some (exc_str e),
                     run_duration_seconds = api_end clock - api_start clock\<rparr>,
                    \<lparr>run_at = gazette_run_at clock, source = ''gazette'',
                     query_params = None, results_count = length ps,
                     new_matches_count = length found, run_error = None,
                     run_duration_seconds = gazette_end clock - gazette_start clock\<rparr>]\<rparr>)"
proof -
  let ?r1 = "\<lparr>run_at = api_run_at clock, source = ''api'',
                     query_params = Some (d_from, d_to), results_count = 0,
                     new_matches_count = 0, run_error = Some (exc_str e),
                     run_duration_seconds = api_end clock - api_start clock\<rparr>"
  have a: "search_api cfg db api_fetch date_from date_to clock
             = Inr (([], 0, Some (''API search failed: '' @ exc_str e)), log_search_run db ?r1)"
    by (simp add: search_api_def w finish_search_fetch_raises f new_search_run_def)
  let ?r2 = "\<lparr>run_at = gazette_run_at clock, source = ''gazette'',
                     query_params = None, results_count = length ps,
                     new_matches_count = length found, run_error = None,
                     run_duration_seconds = gazette_end clock - gazette_start clock\<rparr>"
  have p: "process_patents (search_criteria cfg) ps (log_search_run db ?r1) []
             = (found, \<lparr>patents = patents db', search_runs = search_runs db @ [?r1]\<rparr>, None)"
    by (rule process_patents_after_log [OF l])
  have g: "search_gazette cfg (log_search_run db ?r1) (Inr ps) clock
             = ((found, length ps, None),
                \<lparr>patents = patents db', search_runs = search_runs db @ [?r1, ?r2]\<rparr>)"
    unfolding search_gazette_def finish_search_completes [OF p] new_search_run_def
    by (simp add: log_search_run_def)
  show ?thesis
    by (simp add: run_scan_def a g en add_source_result_def)
qed

lemma run_scan_gazette_raises:
  assumes en: "uspto_api (sources cfg)" "official_gazette (sources cfg)"
      and w: "api_window cfg db date_from date_to (today clock) = Inr (d_from, d_to)"
      and l: "process_patents (search_criteria cfg) ps db [] = (found, db', None)"
      and f: "api_fetch d_from d_to (api_keywords cfg) = Inr ps"
  shows "run_scan cfg db date_from date_to api_fetch (Inl e) clock =
           Inr (\<lparr>alerts = found, total_fetched = length ps, new_matches = length found,
                 errors = [''Gazette scrape failed: '' @ exc_str e],
                 scan_duration_seconds = scan_end clock - scan_start clock\<rparr>,
                \<lparr>patents = patents db',
                 search_runs = search_runs db @
                   [\<lparr>run_at = api_run_at clock, source = ''api'',
                     query_params = Some (d_from, d_to), results_count = length ps,
                     new_matches_count = length found, run_error = None,
                     run_duration_seconds = api_end clock - api_start clock\<rparr>,
                    \<lparr>run_at = gazette_run_at clock, source = ''gazette'',
                     query_params = None, results_count = 0,
                     new_matches_count = 0, run_error = Some (exc_str e),
                     run_duration_seconds = gazette_end clock - gazette_start clock\<rparr>]\<rparr>)"
proof -
  let ?r1 = "\<lparr>run_at = api_run_at clock, source = ''api'',
                     query_params = Some (d_from, d_to), results_count = length ps,
                     new_matches_count = length found, run_error = None,
                     run_duration_seconds = api_end clock - api_start clock\<rparr>"
  have s: "search_runs db' = search_runs db"
    using process_patents_keeps_runs [OF l] .
  have a: "search_api cfg db api_fetch date_from date_to clock
             = Inr ((found, length ps, None), log_search_run db' ?r1)"
    by (simp add: search_api_def w f finish_search_completes [OF l] new_search_run_def)
  have g: "search_gazette cfg (log_search_run db' ?r1) (Inl e) clock
             = (([], 0, Some (''Gazette scrape failed: '' @ exc_str e)),
                \<lparr>patents = patents db', search_runs = search_runs db @
                   [?r1, \<lparr>run_at = gazette_run_at clock, source = ''gazette'',
                     query_params = None, results_count = 0,
                     new_matches_count = 0, run_error = Some (exc_str e),
                     run_duration_seconds = gazette_end clock - gazette_start clock\<rparr>]\<rparr>)"
    unfolding search_gazette_def finish_search_fetch_raises new_search_run_def
    by (simp add: log_search_run_def s database_with_runs)
  show ?thesis
    by (simp add: run_scan_def a g en add_source_result_def)
qed

lemma test_window:
  "api_window test_config empty_db None None (today test_clock)
     = Inr (\<lparr>year = 2025, month = 12, day = 1\<rparr>, \<lparr>year = 2026, month = 3, day = 1\<rparr>)"
  by code_simp

lemma test_two_matches:
  "case process_patents (search_criteria test_config)
          [test_patent ''D1012345'' ''Eyeglasses Frame'' ''D16/300'',
           test_patent ''D1012346'' ''Sunglasses'' ''D16/301; D16/300'']
          empty_db [] of
     (found, db', e) \<Rightarrow> length found = 2 \<and> e = None \<and> length (patents db') = 2"
  by code_simp

lemma finish_search_tracks:
  assumes wf: "\<forall>p \<in> set (candidates_of fetched). \<exists>d. pgr_deadline p = Inr d"
  shows "\<exists>out db'. finish_search cl db run label duration params fetched = (out, db')
           \<and> (\<forall>pn. patent_exists db pn \<longrightarrow> patent_exists db' pn)
           \<and> (\<forall>p \<in> set (candidates_of fetched).
                  patent_exists db' (patent_number p) \<or> matcher_match cl p = [])"
proof (cases fetched)
  case (Inl e)
  then show ?thesis
    by (simp add: finish_search_fetch_raises candidates_of_def)
next
  case (Inr ps)
  with wf have "\<forall>p \<in> set ps. \<exists>d. pgr_deadline p = Inr d" by (simp add: candidates_of_def)
  from process_patents_completes [OF this, of cl db "[]"] obtain found db1 where
    r: "process_patents cl ps db [] = (found, db1, None)"
       "\<forall>pn. patent_exists db pn \<longrightarrow> patent_exists db1 pn"
       "\<forall>p \<in> set ps. patent_exists db1 (patent_number p) \<or> matcher_match cl p = []"
    by blast
  from r(2,3) Inr show ?thesis
    by (simp add: finish_search_completes [OF r(1)] candidates_of_def)
qed

lemma finish_search_noop:
  assumes "\<forall>p \<in> set (candidates_of fetched).
              patent_exists db (patent_number p) \<or> matcher_match cl p = []"
  shows "\<exists>n err run'. finish_search cl db run label duration params fetched
            = (([], n, err), log_search_run db run')"
proof (cases fetched)
  case (Inl e)
  show ?thesis unfolding Inl finish_search_fetch_raises by blast
next
  case (Inr ps)
  with assms have "\<forall>p \<in> set ps. patent_exists db (patent_number p) \<or> matcher_match cl p = []"
    by (simp add: candidates_of_def)
  from process_patents_noop [OF this, of "[]"]
  have "process_patents cl ps db [] = ([], db, None)" .
  from finish_search_completes [OF this] show ?thesis unfolding Inr by blast
qed

lemma api_window_given: "api_window cfg db (Some f) (Some t) td = Inr (f, t)"
  by (simp add: api_window_def)

lemma search_api_given:
  "search_api cfg db api_fetch (Some f) (Some t) clock =
     Inr (finish_search (search_criteria cfg) db (new_search_run (api_run_at clock) ''api'')
            ''API search failed: '' (api_end clock - api_start clock) (Some (f, t))
            (api_fetch f t (api_keywords cfg)))"
  by (simp add: search_api_def api_window_given)

lemma add_source_result_nothing:
  assumes "alerts r = []" "new_matches r = 0"
  shows "alerts (add_source_result r ([], n, err)) = []"
    and "new_matches (add_source_result r ([], n, err)) = 0"
  using assms by (simp_all add: add_source_result_def)

text \<open>After a scan whose candidates all have a deadline, each candidate is tracked or
  matches nothing.\<close>

lemma run_scan_tracks:
  assumes wf: "\<forall>p \<in> set (scan_candidates cfg (api_fetch f t (api_keywords cfg)) gazette_fetch).
                  \<exists>d. pgr_deadline p = Inr d"
      and r: "run_scan cfg db (Some f) (Some t) api_fetch gazette_fetch clock = Inr (res, db1)"
  shows "\<forall>p \<in> set (scan_candidates cfg (api_fetch f t (api_keywords cfg)) gazette_fetch).
            patent_exists db1 (patent_number p) \<or> matcher_match (search_criteria cfg) p = []"
proof -
  let ?cl = "search_criteria cfg"
  let ?A = "api_fetch f t (api_keywords cfg)"
  let ?r0 = "\<lparr>alerts = [], total_fetched = 0, new_matches = 0, errors = [],
              scan_duration_seconds = 0\<rparr>"
  text \<open>the API step\<close>
  have "\<exists>ra dba. (if uspto_api (sources cfg)
               then (case search_api cfg db api_fetch (Some f) (Some t) clock of
                       Inl e \<Rightarrow> Inl e
                     | Inr (out, db') \<Rightarrow> Inr (add_source_result ?r0 out, db'))
               else Inr (?r0, db)) = Inr (ra, dba)
          \<and> (\<forall>pn. patent_exists db pn \<longrightarrow> patent_exists dba pn)
          \<and> (uspto_api (sources cfg) \<longrightarrow>
                (\<forall>p \<in> set (candidates_of ?A). patent_exists dba (patent_number p) \<or> matcher_match ?cl p = []))"
  proof (cases "uspto_api (sources cfg)")
    case False
    then show ?thesis by simp
  next
    case True
    with wf have "\<forall>p \<in> set (candidates_of ?A). \<exists>d. pgr_deadline p = Inr d"
      by (simp add: scan_candidates_def)
    from finish_search_tracks [OF this, of ?cl db "new_search_run (api_run_at clock) ''api''"
        "''API search failed: ''" "api_end clock - api_start clock" "Some (f, t)"]
    obtain out dba where
      "finish_search ?cl db (new_search_run (api_run_at clock) ''api'') ''API search failed: ''
         (api_end clock - api_start clock) (Some (f, t)) ?A = (out, dba)"
      "\<forall>pn. patent_exists db pn \<longrightarrow> patent_exists dba pn"
      "\<forall>p \<in> set (candidates_of ?A). patent_exists dba (patent_number p) \<or> matcher_match ?cl p = []"
      by blast
    with True show ?thesis by (simp add: search_api_given)
  qed
  then obtain ra dba where
    a: "(if uspto_api (sources cfg)
               then (case search_api cfg db api_fetch (Some f) (Some t) clock of
                       Inl e \<Rightarrow> Inl e
                     | Inr (out, db') \<Rightarrow> Inr (add_source_result ?r0 out, db'))
               else Inr (?r0, db)) = Inr (ra, dba)"
    and am: "\<forall>pn. patent_exists db pn \<longrightarrow> patent_exists dba pn"
    and ac: "uspto_api (sources cfg) \<longrightarrow>
                (\<forall>p \<in> set (candidates_of ?A). patent_exists dba (patent_number p) \<or> matcher_match ?cl p = [])"
    by blast
  text \<open>the gazette step\<close>
  have "\<exists>rg dbg. (if official_gazette (sources cfg)
                    then (case search_gazette cfg dba gazette_fetch clock of
                            (out, db') \<Rightarrow> (add_source_result ra out, db'))
                    else (ra, dba)) = (rg, dbg)
          \<and> (\<forall>pn. patent_exists dba pn \<longrightarrow> patent_exists dbg pn)
          \<and> (official_gazette (sources cfg) \<longrightarrow>
                (\<forall>p \<in> set (candidates_of gazette_fetch).
                    patent_exists dbg (patent_number p) \<or> matcher_match ?cl p = []))"
  proof (cases "official_gazette (sources cfg)")
    case False
    then show ?thesis by simp
  next
    case True
    with wf have "\<forall>p \<in> set (candidates_of gazette_fetch). \<exists>d. pgr_deadline p = Inr d"
      by (simp add: scan_candidates_def)
    from finish_search_tracks [OF this, of ?cl dba "new_search_run (gazette_run_at clock) ''gazette''"
        "''Gazette scrape failed: ''" "gazette_end clock - gazette_start clock" None]
    obtain out dbg where
      "finish_search ?cl dba (new_search_run (gazette_run_at clock) ''gazette'')
         ''Gazette scrape failed: '' (gazette_end clock - gazette_start clock) None gazette_fetch
         = (out, dbg)"
      "\<forall>pn. patent_exists dba pn \<longrightarrow> patent_exists dbg pn"
      "\<forall>p \<in> set (candidates_of gazette_fetch).
          patent_exists dbg (patent_number p) \<or> matcher_match ?cl p = []"
      by blast
    with True show ?thesis by (simp add: search_gazette_def)
  qed
  then obtain rg dbg where
    g: "(if official_gazette (sources cfg)
                    then (case search_gazette cfg dba gazette_fetch clock of
                            (out, db') \<Rightarrow> (add_source_result ra out, db'))
                    else (ra, dba)) = (rg, dbg)"
    and gm: "\<forall>pn. patent_exists dba pn \<longrightarrow> patent_exists dbg pn"
    and gc: "official_gazette (sources cfg) \<longrightarrow>
                (\<forall>p \<in> set (candidates_of gazette_fetch).
                    patent_exists dbg (patent_number p) \<or> matcher_match ?cl p = [])"
    by blast
  from r have "db1 = dbg"
    unfolding run_scan_def Let_def a by (simp add: g)
  with ac gm gc show ?thesis
    by (auto simp: scan_candidates_def)
qed

text \<open>A scan whose candidates are all tracked or match nothing reports no new match and
  leaves the patents of the store as they are.\<close>

lemma run_scan_noop:
  assumes c: "\<forall>p \<in> set (scan_candidates cfg (api_fetch f t (api_keywords cfg)) gazette_fetch).
                 patent_exists db (patent_number p) \<or> matcher_match (search_criteria cfg) p = []"
  shows "\<exists>res db'. run_scan cfg db (Some f) (Some t) api_fetch gazette_fetch clock = Inr (res, db')
           \<and> alerts res = [] \<and> new_matches res = 0 \<and> patents db' = patents db"
proof -
  let ?cl = "search_criteria cfg"
  let ?A = "api_fetch f t (api_keywords cfg)"
  let ?r0 = "\<lparr>alerts = [], total_fetched = 0, new_matches = 0, errors = [],
              scan_duration_seconds = 0\<rparr>"
  have "\<exists>ra dba. (if uspto_api (sources cfg)
               then (case search_api cfg db api_fetch (Some f) (Some t) clock of
                       Inl e \<Rightarrow> Inl e
                     | Inr (out, db') \<Rightarrow> Inr (add_source_result ?r0 out, db'))
               else Inr (?r0, db)) = Inr (ra, dba)
          \<and> alerts ra = [] \<and> new_matches ra = 0 \<and> patents dba = patents db"
  proof (cases "uspto_api (sources cfg)")
    case False
    then show ?thesis by simp
  next
    case True
    with c have "\<forall>p \<in> set (candidates_of ?A).
                    patent_exists db (patent_number p) \<or> matcher_match ?cl p = []"
      by (simp add: scan_candidates_def)
    from finish_search_noop [OF this, of "new_search_run (api_run_at clock) ''api''"
        "''API search failed: ''" "api_end clock - api_start clock" "Some (f, t)"]
    obtain n err run' where
      "finish_search ?cl db (new_search_run (api_run_at clock) ''api'') ''API search failed: ''
         (api_end clock - api_start clock) (Some (f, t)) ?A = (([], n, err), log_search_run db run')"
      by blast
    with True show ?thesis by (simp add: search_api_given add_source_result_def)
  qed
  then obtain ra dba where
    a: "(if uspto_api (sources cfg)
               then (case search_api cfg db api_fetch (Some f) (Some t) clock of
                       Inl e \<Rightarrow> Inl e
                     | Inr (out, db') \<Rightarrow> Inr (add_source_result ?r0 out, db'))
               else Inr (?r0, db)) = Inr (ra, dba)"
    and ra: "alerts ra = []" "new_matches ra = 0" and pa: "patents dba = patents db"
    by blast
  from pa have ex: "\<And>pn. patent_exists dba pn = patent_exists db pn"
    by (simp add: patent_exists_def)
  have "\<exists>rg dbg. (if official_gazette (sources cfg)
                    then (case search_gazette cfg dba gazette_fetch clock of
                            (out, db') \<Rightarrow> (add_source_result ra out, db'))
                    else (ra, dba)) = (rg, dbg)
          \<and> alerts rg = [] \<and> new_matches rg = 0 \<and> patents dbg = patents db"
  proof (cases "official_gazette (sources cfg)")
    case False
    with ra pa show ?thesis by simp
  next
    case True
    with c have "\<forall>p \<in> set (candidates_of gazette_fetch).
                    patent_exists dba (patent_number p) \<or> matcher_match ?cl p = []"
      by (simp add: scan_candidates_def ex)
    from finish_search_noop [OF this, of "new_search_run (gazette_run_at clock) ''gazette''"
        "''Gazette scrape failed: ''" "gazette_end clock - gazette_start clock" None]
    obtain n err run' where
      "finish_search ?cl dba (new_search_run (gazette_run_at clock) ''gazette'')
         ''Gazette scrape failed: '' (gazette_end clock - gazette_start clock) None gazette_fetch
         = (([], n, err), log_search_run dba run')"
      by blast
    with True ra pa show ?thesis by (simp add: search_gazette_def add_source_result_def)
  qed
  then obtain rg dbg where
    g: "(if official_gazette (sources cfg)
                    then (case search_gazette cfg dba gazette_fetch clock of
                            (out, db') \<Rightarrow> (add_source_result ra out, db'))
                    else (ra, dba)) = (rg, dbg)"
    and rg: "alerts rg = []" "new_matches rg = 0" and pg: "patents dbg = patents db"
    by blast
  have "run_scan cfg db (Some f) (Some t) api_fetch gazette_fetch clock
          = Inr (rg\<lparr>scan_duration_seconds := scan_end clock - scan_start clock\<rparr>, dbg)"
    unfolding run_scan_def Let_def a by (simp add: g)
  with rg pg show ?thesis by simp
qed

lemma pgr_deadline_test_patent:
  "pgr_deadline (test_patent pn t cls) = Inr \<lparr>year = 2026, month = 11, day = 18\<rparr>"
  unfolding pgr_deadline_def relativedelta_months_def rd_radd_def test_patent_def new_patent_def
  by (simp add: monthrange_days_def make_date_def valid_date_def days_in_month_def mdays_def
                MINYEAR_def MAXYEAR_def)

lemma test_first_scan:
  "case run_scan test_config empty_db
          (Some \<lparr>year = 2026, month = 2, day = 1\<rparr>) (Some \<lparr>year = 2026, month = 3, day = 1\<rparr>)
          (\<lambda>d_from d_to kw. Inr [test_patent ''D1012345'' ''Eyeglasses Frame'' ''D16/300'',
                                   test_patent ''D9999999'' ''Unrelated Widget'' ''D99/999''])
          (Inr []) test_clock of
     Inl e \<Rightarrow> False
   | Inr (res1, db1) \<Rightarrow> new_matches res1 = 1 \<and> get_patent_count db1 = 1"
  by code_simp

text \<open>Whatever the fetch and the loop do, a search logs exactly one run, of its source.\<close>

lemma finish_search_logs_one:
  "\<exists>out db1 r. finish_search cl db run label duration params fetched = (out, db1)
      \<and> search_runs db1 = search_runs db @ [r] \<and> source r = source run"
proof (cases fetched)
  case (Inl e)
  show ?thesis unfolding Inl finish_search_fetch_raises by simp
next
  case (Inr ps)
  obtain found db' x where l: "process_patents cl ps db [] = (found, db', x)"
    by (cases "process_patents cl ps db []") auto
  have s: "search_runs db' = search_runs db" using process_patents_keeps_runs [OF l] .
  show ?thesis
  proof (cases x)
    case None
    with l have "process_patents cl ps db [] = (found, db', None)" by simp
    from finish_search_completes [OF this] s show ?thesis unfolding Inr by simp
  next
    case (Some e)
    with l have "process_patents cl ps db [] = (found, db', Some e)" by simp
    from finish_search_loop_raises [OF this] s show ?thesis unfolding Inr by simp
  qed
qed

text \<open>Once the window of the API is computed, a scan returns, and the store has one more
  run for each enabled source, in the order API, gazette.\<close>

lemma run_scan_logs_each_source:
  assumes w: "api_window cfg db date_from date_to (today clock) = Inr (d_from, d_to)"
  shows "\<exists>res db'. run_scan cfg db date_from date_to api_fetch gazette_fetch clock = Inr (res, db')
           \<and> (\<exists>new_runs. search_runs db' = search_runs db @ new_runs
                 \<and> map source new_runs
                      = (if uspto_api (sources cfg) then [''api''] else [])
                        @ (if official_gazette (sources cfg) then [''gazette''] else []))"
proof -
  let ?cl = "search_criteria cfg"
  let ?r0 = "\<lparr>alerts = [], total_fetched = 0, new_matches = 0, errors = [],
              scan_duration_seconds = 0\<rparr>"
  have "\<exists>ra dba ar. (if uspto_api (sources cfg)
               then (case search_api cfg db api_fetch date_from date_to clock of
                       Inl e \<Rightarrow> Inl e
                     | Inr (out, db') \<Rightarrow> Inr (add_source_result ?r0 out, db'))
               else Inr (?r0, db)) = Inr (ra, dba)
          \<and> search_runs dba = search_runs db @ ar
          \<and> map source ar = (if uspto_api (sources cfg) then [''api''] else [])"
  proof (cases "uspto_api (sources cfg)")
    case False
    then show ?thesis by simp
  next
    case True
    from finish_search_logs_one [of ?cl db "new_search_run (api_run_at clock) ''api''"
        "''API search failed: ''" "api_end clock - api_start clock" "Some (d_from, d_to)"
        "api_fetch d_from d_to (api_keywords cfg)"]
    obtain out dba r where
      "finish_search ?cl db (new_search_run (api_run_at clock) ''api'') ''API search failed: ''
         (api_end clock - api_start clock) (Some (d_from, d_to))
         (api_fetch d_from d_to (api_keywords cfg)) = (out, dba)"
      "search_runs dba = search_runs db @ [r]" "source r = ''api''"
      by (auto simp: new_search_run_def)
    with True w show ?thesis by (simp add: search_api_def)
  qed
  then obtain ra dba ar where
    a: "(if uspto_api (sources cfg)
               then (case search_api cfg db api_fetch date_from date_to clock of
                       Inl e \<Rightarrow> Inl e
                     | Inr (out, db') \<Rightarrow> Inr (add_source_result ?r0 out, db'))
               else Inr (?r0, db)) = Inr (ra, dba)"
    and as: "search_runs dba = search_runs db @ ar"
    and am: "map source ar = (if uspto_api (sources cfg) then [''api''] else [])"
    by blast
  have "\<exists>rg dbg gr. (if official_gazette (sources cfg)
                    then (case search_gazette cfg dba gazette_fetch clock of
                            (out, db') \<Rightarrow> (add_source_result ra out, db'))
                    else (ra, dba)) = (rg, dbg)
          \<and> search_runs dbg = search_runs dba @ gr
          \<and> map source gr = (if official_gazette (sources cfg) then [''gazette''] else [])"
  proof (cases "official_gazette (sources cfg)")
    case False
    then show ?thesis by simp
  next
    case True
    from finish_search_logs_one [of ?cl dba "new_search_run (gazette_run_at clock) ''gazette''"
        "''Gazette scrape failed: ''" "gazette_end clock - gazette_start clock" None gazette_fetch]
    obtain out dbg r where
      "finish_search ?cl dba (new_search_run (gazette_run_at clock) ''gazette'')
         ''Gazette scrape failed: '' (gazette_end clock - gazette_start clock) None gazette_fetch
         = (out, dbg)"
      "search_runs dbg = search_runs dba @ [r]" "source r = ''gazette''"
      by (auto simp: new_search_run_def)
    with True show ?thesis by (simp add: search_gazette_def)
  qed
  then obtain rg dbg gr where
    g: "(if official_gazette (sources cfg)
                    then (case search_gazette cfg dba gazette_fetch clock of
                            (out, db') \<Rightarrow> (add_source_result ra out, db'))
                    else (ra, dba)) = (rg, dbg)"
    and gs: "search_runs dbg = search_runs dba @ gr"
    and gm: "map source gr = (if official_gazette (sources cfg) then [''gazette''] else [])"
    by blast
  have "run_scan cfg db date_from date_to api_fetch gazette_fetch clock
          = Inr (rg\<lparr>scan_duration_seconds := scan_end clock - scan_start clock\<rparr>, dbg)"
    unfolding run_scan_def Let_def a by (simp add: g)
  moreover have "search_runs dbg = search_runs db @ (ar @ gr)" using as gs by simp
  moreover have "map source (ar @ gr)
                   = (if uspto_api (sources cfg) then [''api''] else [])
                     @ (if official_gazette (sources cfg) then [''gazette''] else [])"
    using am gm by simp
  ultimately show ?thesis by blast
qed

section \<open>Facts about the normalisation of responses\<close>



text \<open>Where the score can be coerced, the result of a dict is sanitised.\<close>

lemma data_to_result_sanitized:
  assumes "py_int int_of_str (case map_of kvs ''similarity_score'' of None \<Rightarrow> JInt 0 | Some v \<Rightarrow> v) = Inr s"
  shows "\<exists>r. data_to_result int_of_str now (JDict kvs) = Inr r
           \<and> similarity_score r = max 0 (min 100 s)
           \<and> 0 \<le> similarity_score r \<and> similarity_score r \<le> 100
           \<and> risk_level r \<in> {''high'', ''medium'', ''low'', ''none''}
           \<and> recommendation r \<in> {''flag'', ''monitor'', ''dismiss''}
           \<and> (map_of kvs ''reasoning'' = None \<longrightarrow> reasoning r = JStr [])
           \<and> analysis_error r = None"
  using assms unfolding data_to_result_def data_get_def in_strings_def str_value_def Let_def
  by (auto split: option.splits json.splits)

lemma data_to_result_clamps_150:
  "data_to_result int_of_str now
     (JDict [(''similarity_score'', JInt 150), (''risk_level'', JStr ''extreme''),
             (''recommendation'', JStr ''sue_them'')])
   = Inr \<lparr>similarity_score = 100, risk_level = ''none'', recommendation = ''monitor'',
          reasoning = JStr [], patent_image_used = False, product_images_used = [],
          model_used = [], analyzed_at = now, analysis_error = None\<rparr>"
  by (simp add: data_to_result_def data_get_def in_strings_def str_value_def)

text \<open>A response that is JSON but not an object leaves the parser with an
  AttributeError, from the first strategy.\<close>

lemma parse_response_raises_on_list:
  assumes "json_loads (str_strip text) = Inr (JList xs)"
  shows "\<exists>e. parse_response json_loads int_of_str now text = Inl e
              \<and> exc_class_of e = AttributeError"
  using assms unfolding parse_response_def try_loads_def data_to_result_def data_get_def
  by simp


section \<open>Deadline arithmetic\<close>

text \<open>
  Claim C6. For every issue date (a valid date whose deadline still lies within the years
  that \<open>datetime.date\<close> can hold), \<open>pgr_deadline\<close> is the issue date moved forward by
  exactly nine calendar months, the day cut to the last day of the target month when it
  overflows.
\<close>

theorem pgr_deadline_nine_months:
  assumes v: "valid_date (issue_date p)"
      and r: "year (shift_months_clamped (issue_date p) 9) \<le> MAXYEAR"
  shows "pgr_deadline p = Inr (shift_months_clamped (issue_date p) 9)"
proof -
  let ?d = "issue_date p"
  from v have m: "1 \<le> month ?d" "month ?d \<le> 12" and y: "1 \<le> year ?d" and dd: "1 \<le> day ?d"
    unfolding valid_date_def MINYEAR_def by auto
  show ?thesis
  proof (cases "month ?d \<le> 3")
    case True
    have s: "shift_months_clamped ?d 9 =
           \<lparr>year = year ?d, month = month ?d + 9, day = min (day ?d) (days_in_month (year ?d) (month ?d + 9))\<rparr>"
      using shift9_early [OF m(1) True] .
    from r s have ry: "year ?d \<le> MAXYEAR" by simp
    have vd: "valid_date \<lparr>year = year ?d, month = month ?d + 9,
                 day = min (days_in_month (year ?d) (month ?d + 9)) (day ?d)\<rparr>"
      unfolding valid_date_def using m True y ry dd days_in_month_ge_28 [of "year ?d" "month ?d + 9"]
      by (simp add: MINYEAR_def)
    show ?thesis
      unfolding pgr_deadline_def relativedelta_months_9 rd_radd_def s
      using m True vd
      by (simp add: monthrange_days_def make_date_def days_in_month_def min.commute Let_def)
  next
    case False
    then have f: "4 \<le> month ?d" by simp
    have s: "shift_months_clamped ?d 9 =
           \<lparr>year = year ?d + 1, month = month ?d - 3, day = min (day ?d) (days_in_month (year ?d + 1) (month ?d - 3))\<rparr>"
      using shift9_late [OF f m(2)] .
    from r s have ry: "year ?d + 1 \<le> MAXYEAR" by simp
    have vd: "valid_date \<lparr>year = year ?d + 1, month = month ?d - 3,
                 day = min (days_in_month (year ?d + 1) (month ?d - 3)) (day ?d)\<rparr>"
      unfolding valid_date_def using m f y ry dd days_in_month_ge_28 [of "year ?d + 1" "month ?d - 3"]
      by (simp add: MINYEAR_def)
    show ?thesis
      unfolding pgr_deadline_def relativedelta_months_9 rd_radd_def s
      using m f vd
      by (simp add: monthrange_days_def make_date_def days_in_month_def min.commute Let_def)
  qed
qed

text \<open>The two dates of the specification: 2026-01-15 gives 2026-10-15, and 2026-05-31
  gives 2027-02-28 (2027 is not a leap year).\<close>

theorem pgr_deadline_nine_months_witness:
  "valid_date \<lparr>year = 2026, month = 1, day = 15\<rparr>
   \<and> valid_date \<lparr>year = 2026, month = 5, day = 31\<rparr>
   \<and> pgr_deadline (new_patent ''D1012345'' ''Eyeglasses Frame'' \<lparr>year = 2026, month = 1, day = 15\<rparr> \<lparr>dt_date = \<lparr>year = 2026, month = 2, day = 24\<rparr>, dt_micros = 0\<rparr>)
       = Inr \<lparr>year = 2026, month = 10, day = 15\<rparr>
   \<and> pgr_deadline (new_patent ''D1012345'' ''Eyeglasses Frame'' \<lparr>year = 2026, month = 5, day = 31\<rparr> \<lparr>dt_date = \<lparr>year = 2026, month = 2, day = 24\<rparr>, dt_micros = 0\<rparr>)
       = Inr \<lparr>year = 2027, month = 2, day = 28\<rparr>"
proof -
  let ?a = "\<lparr>year = 2026, month = 1, day = 15\<rparr>"
  let ?b = "\<lparr>year = 2026, month = 5, day = 31\<rparr>"
  let ?n = "\<lparr>dt_date = \<lparr>year = 2026, month = 2, day = 24\<rparr>, dt_micros = 0\<rparr>"
  let ?pa = "new_patent ''D1012345'' ''Eyeglasses Frame'' ?a ?n"
  let ?pb = "new_patent ''D1012345'' ''Eyeglasses Frame'' ?b ?n"
  have va: "valid_date ?a" and vb: "valid_date ?b"
    by (simp_all add: valid_date_def MINYEAR_def MAXYEAR_def days_in_month_def mdays_def)
  have sa: "shift_months_clamped ?a 9 = \<lparr>year = 2026, month = 10, day = 15\<rparr>"
    by (simp add: shift_months_clamped_def days_in_month_def mdays_def)
  have sb: "shift_months_clamped ?b 9 = \<lparr>year = 2027, month = 2, day = 28\<rparr>"
    by (simp add: shift_months_clamped_def days_in_month_def mdays_def is_leap_def)
  have ia: "issue_date ?pa = ?a" and ib: "issue_date ?pb = ?b"
    by (simp_all add: new_patent_def)
  have ra: "year (shift_months_clamped (issue_date ?pa) 9) \<le> MAXYEAR"
    unfolding ia sa by (simp add: MAXYEAR_def)
  have rb: "year (shift_months_clamped (issue_date ?pb) 9) \<le> MAXYEAR"
    unfolding ib sb by (simp add: MAXYEAR_def)
  have "pgr_deadline ?pa = Inr \<lparr>year = 2026, month = 10, day = 15\<rparr>"
    using pgr_deadline_nine_months [of ?pa] va ra unfolding ia sa by simp
  moreover have "pgr_deadline ?pb = Inr \<lparr>year = 2027, month = 2, day = 28\<rparr>"
    using pgr_deadline_nine_months [of ?pb] vb rb unfolding ib sb by simp
  ultimately show ?thesis using va vb by simp
qed

section \<open>Months remaining and urgency\<close>

text \<open>
  The buckets on the dates of the specification, for the deadline 2026-10-15: two months
  before it the urgency is high, four months before medium, eight months before low,
  and one day after it expired.
\<close>

lemma urgency_examples:
  "urgency (new_patent ''D1012345'' ''Eyeglasses Frame'' \<lparr>year = 2026, month = 1, day = 15\<rparr>
              \<lparr>dt_date = \<lparr>year = 2026, month = 1, day = 20\<rparr>, dt_micros = 0\<rparr>)
           \<lparr>year = 2026, month = 8, day = 15\<rparr> = Inr ''high''"
  "urgency (new_patent ''D1012345'' ''Eyeglasses Frame'' \<lparr>year = 2026, month = 1, day = 15\<rparr>
              \<lparr>dt_date = \<lparr>year = 2026, month = 1, day = 20\<rparr>, dt_micros = 0\<rparr>)
           \<lparr>year = 2026, month = 6, day = 15\<rparr> = Inr ''medium''"
  "urgency (new_patent ''D1012345'' ''Eyeglasses Frame'' \<lparr>year = 2026, month = 1, day = 15\<rparr>
              \<lparr>dt_date = \<lparr>year = 2026, month = 1, day = 20\<rparr>, dt_micros = 0\<rparr>)
           \<lparr>year = 2026, month = 2, day = 15\<rparr> = Inr ''low''"
  "urgency (new_patent ''D1012345'' ''Eyeglasses Frame'' \<lparr>year = 2026, month = 1, day = 15\<rparr>
              \<lparr>dt_date = \<lparr>year = 2026, month = 1, day = 20\<rparr>, dt_micros = 0\<rparr>)
           \<lparr>year = 2026, month = 10, day = 16\<rparr> = Inr ''expired''"
  by code_simp+

text \<open>
  Claim C5. The months remaining are to be the signed calendar month delta from today to
  the deadline plus the days over 30, negative once the deadline has passed. The code
  adds only the field \<open>months\<close> of the difference to the days and leaves the field
  \<open>years\<close> out. A deadline 15 months and 5 days in the past gives -3 - 5/30, where the
  month delta is -15; a deadline exactly twelve months in the past gives 0, which is not
  negative; a deadline 14 months ahead gives 2 and the urgency "high".
\<close>

theorem pgr_months_remaining_drops_years:
  "relativedelta_between \<lparr>year = 2024, month = 10, day = 15\<rparr> \<lparr>year = 2026, month = 1, day = 20\<rparr>
     = Inr \<lparr>rd_years = - 1, rd_months = - 3, rd_days = - 5\<rparr>
   \<and> total_months \<lparr>rd_years = - 1, rd_months = - 3, rd_days = - 5\<rparr> = - 15
   \<and> pgr_months_remaining
         (new_patent ''D1012345'' ''Eyeglasses Frame'' \<lparr>year = 2024, month = 1, day = 15\<rparr>
            \<lparr>dt_date = \<lparr>year = 2024, month = 1, day = 20\<rparr>, dt_micros = 0\<rparr>)
         \<lparr>year = 2026, month = 1, day = 20\<rparr> = Inr (- 3 - 5 / 30)
   \<and> pgr_months_remaining
         (new_patent ''D1012345'' ''Eyeglasses Frame'' \<lparr>year = 2025, month = 1, day = 15\<rparr>
            \<lparr>dt_date = \<lparr>year = 2025, month = 1, day = 20\<rparr>, dt_micros = 0\<rparr>)
         \<lparr>year = 2026, month = 10, day = 15\<rparr> = Inr 0
   \<and> relativedelta_between \<lparr>year = 2028, month = 1, day = 3\<rparr> \<lparr>year = 2026, month = 11, day = 3\<rparr>
     = Inr \<lparr>rd_years = 1, rd_months = 2, rd_days = 0\<rparr>
   \<and> urgency
         (new_patent ''D1012345'' ''Eyeglasses Frame'' \<lparr>year = 2027, month = 4, day = 3\<rparr>
            \<lparr>dt_date = \<lparr>year = 2026, month = 11, day = 3\<rparr>, dt_micros = 0\<rparr>)
         \<lparr>year = 2026, month = 11, day = 3\<rparr> = Inr ''high''"
  by code_simp

section \<open>Classification matching\<close>


text \<open>
  Claim C10. A configured prefix that is not the empty string but holds only whitespace
  normalises to the empty string, and then the class check is True for every patent
  whose classification is not empty: the guard tests the prefix before it is normalised.
\<close>

theorem whitespace_prefix_matches_every_class:
  assumes "tc \<noteq> []" and "\<forall>c \<in> set tc. py_isspace c" and "pc \<noteq> []"
  shows "class_matches pc tc"
proof -
  have n: "normalize_class tc = []"
    unfolding normalize_class_def using str_strip_all_space [OF assms(2)]
    by (simp add: str_upper_def remove_spaces_def)
  have "map normalize_class (str_split (CHR '';'') pc) \<noteq> []"
    using str_split_nonempty by simp
  then have "any_startswith (map normalize_class (str_split (CHR '';'') pc)) []"
    by (rule any_startswith_empty)
  then show ?thesis
    unfolding class_matches_def Let_def n using assms(1,3) by simp
qed

text \<open>The prefix of a space and a tab against the classification "D26/100".\<close>

theorem whitespace_prefix_matches_every_class_witness:
  "[CHR '' '', CHR 0x09] \<noteq> [] \<and> py_isspace (CHR '' '') \<and> py_isspace (CHR 0x09) \<and> ''D26/100'' \<noteq> []
   \<and> class_matches ''D26/100'' [CHR '' '', CHR 0x09]"
proof -
  have a: "[CHR '' '', CHR 0x09] \<noteq> []" by simp
  have b: "\<forall>c \<in> set [CHR '' '', CHR 0x09]. py_isspace c" by (simp add: py_isspace_def)
  have c: "''D26/100'' \<noteq> []" by simp
  from whitespace_prefix_matches_every_class [OF a b c] b show ?thesis by simp
qed

section \<open>The tracking store\<close>

text \<open>
  Claim C3. For every patent number, \<open>insert_patent\<close> succeeds at most once: after a
  first insert, and whatever the store does in between, a second insert for the same
  number returns False without raising and leaves the store as it is; the record that
  is read back still has the \<open>first_seen\<close> timestamp of the first insert. (The second
  record is one whose deadline can be computed, as for any record accepted before.)
\<close>

theorem insert_patent_at_most_once:
  assumes first: "insert_patent db p mc = Inr (True, db1)"
      and later: "apply_store_ops db1 ops = Inr db2"
      and same: "patent_number p2 = patent_number p"
      and wf: "pgr_deadline p2 = Inr d2"
  shows "insert_patent db2 p2 mc2 = Inr (False, db2)
         \<and> map_option first_seen (get_patent db2 (patent_number p)) = Some (first_seen p)"
proof -
  from stored_row_after_insert [OF first] obtain r where
    r: "stored_row db1 (patent_number p) = Some r" "col_first_seen_at r = first_seen p"
    by auto
  from apply_store_ops_keeps_row [OF later r(1)] obtain r' where
    r': "stored_row db2 (patent_number p) = Some r'" "col_first_seen_at r' = col_first_seen_at r"
    by blast
  from r'(1) have ex: "patent_exists db2 (patent_number p2)"
    unfolding patent_exists_stored_row same by simp
  have a: "insert_patent db2 p2 mc2 = Inr (False, db2)"
    using insert_patent_duplicate [OF ex wf] .
  have b: "map_option first_seen (get_patent db2 (patent_number p)) = Some (first_seen p)"
    using r' r(2) unfolding get_patent_def by (simp add: row_to_patent_def)
  from a b show ?thesis by simp
qed

text \<open>Insert, a status change and a notification, then the same patent seen again at a
  later moment.\<close>

theorem insert_patent_at_most_once_witness:
  "\<exists>db1 db2.
     insert_patent empty_db
        (new_patent ''D1012345'' ''Eyeglasses Frame'' \<lparr>year = 2026, month = 1, day = 15\<rparr>
           \<lparr>dt_date = \<lparr>year = 2026, month = 1, day = 20\<rparr>, dt_micros = 0\<rparr>) None = Inr (True, db1)
     \<and> apply_store_ops db1
          [UpdatePatentStatus ''D1012345'' ''flagged'',
           MarkNotified ''D1012345'' \<lparr>dt_date = \<lparr>year = 2026, month = 1, day = 21\<rparr>, dt_micros = 0\<rparr>]
          = Inr db2
     \<and> insert_patent db2
          (new_patent ''D1012345'' ''Eyeglasses Frame'' \<lparr>year = 2026, month = 1, day = 15\<rparr>
             \<lparr>dt_date = \<lparr>year = 2026, month = 3, day = 1\<rparr>, dt_micros = 7\<rparr>) None = Inr (False, db2)
     \<and> map_option first_seen (get_patent db2 ''D1012345'')
          = Some \<lparr>dt_date = \<lparr>year = 2026, month = 1, day = 20\<rparr>, dt_micros = 0\<rparr>"
proof -
  let ?d = "\<lparr>year = 2026, month = 1, day = 15\<rparr>"
  let ?t1 = "\<lparr>dt_date = \<lparr>year = 2026, month = 1, day = 20\<rparr>, dt_micros = 0\<rparr>"
  let ?t2 = "\<lparr>dt_date = \<lparr>year = 2026, month = 3, day = 1\<rparr>, dt_micros = 7\<rparr>"
  let ?p = "new_patent ''D1012345'' ''Eyeglasses Frame'' ?d ?t1"
  let ?p2 = "new_patent ''D1012345'' ''Eyeglasses Frame'' ?d ?t2"
  let ?ops = "[UpdatePatentStatus ''D1012345'' ''flagged'',
               MarkNotified ''D1012345'' \<lparr>dt_date = \<lparr>year = 2026, month = 1, day = 21\<rparr>, dt_micros = 0\<rparr>]"
  have "\<not> patent_exists empty_db (patent_number ?p)"
    by (simp add: patent_exists_def empty_db_def)
  from insert_patent_fresh [OF this pgr_deadline_example]
  obtain db1 where i: "insert_patent empty_db ?p None = Inr (True, db1)" by blast
  obtain db2 where o: "apply_store_ops db1 ?ops = Inr db2" by simp
  have n: "patent_number ?p2 = patent_number ?p" by (simp add: new_patent_def)
  from insert_patent_at_most_once [OF i o n pgr_deadline_example, of None]
  have "insert_patent db2 ?p2 None = Inr (False, db2)
        \<and> map_option first_seen (get_patent db2 ''D1012345'') = Some ?t1"
    by (simp add: new_patent_def)
  with i o show ?thesis by blast
qed

text \<open>
  Claim C7, as the specification states it, fails: \<open>insert_patent\<close> writes the deadline
  into the column \<open>pgr_deadline\<close> of the new row.
\<close>

theorem insert_patent_persists_pgr_deadline:
  "(case insert_patent empty_db
           (new_patent ''D1012345'' ''Eyeglasses Frame'' \<lparr>year = 2026, month = 1, day = 15\<rparr>
              \<lparr>dt_date = \<lparr>year = 2026, month = 1, day = 20\<rparr>, dt_micros = 0\<rparr>) None of
      Inl e \<Rightarrow> False
    | Inr (ok, db') \<Rightarrow> ok \<and> map col_pgr_deadline (patents db') = [\<lparr>year = 2026, month = 10, day = 15\<rparr>])"
  unfolding insert_patent_def pgr_deadline_example
  by (simp add: patent_exists_def empty_db_def)

text \<open>
  Claim C7, amended. \<open>insert_patent\<close> writes the deadline of the patent once, into the
  \<open>pgr_deadline\<close> column of the new row, and no later operation of the store changes
  that column. A patent that is read back takes its deadline from the issue date, not
  from the column; the months remaining and the urgency are not stored at all: they are
  computed at each read from the issue date of the row and from today's date.
\<close>

theorem derived_fields_persistence:
  "(insert_patent db p mc = Inr (True, db') \<longrightarrow>
      (\<exists>r. patents db' = patents db @ [r] \<and> pgr_deadline p = Inr (col_pgr_deadline r)))
   \<and> (apply_store_op dbs x = Inr dbs' \<and> stored_row dbs pn = Some rw \<longrightarrow>
        map_option col_pgr_deadline (stored_row dbs' pn) = Some (col_pgr_deadline rw))
   \<and> pgr_deadline (row_to_patent r) = rd_radd (relativedelta_months 9) (col_issue_date r)
   \<and> (col_issue_date ra = col_issue_date rb \<longrightarrow>
        pgr_months_remaining (row_to_patent ra) td = pgr_months_remaining (row_to_patent rb) td
        \<and> urgency (row_to_patent ra) td = urgency (row_to_patent rb) td)"
proof -
  have a: "insert_patent db p mc = Inr (True, db') \<longrightarrow>
      (\<exists>r. patents db' = patents db @ [r] \<and> pgr_deadline p = Inr (col_pgr_deadline r))"
    using insert_patent_new_row [of db p mc db'] by blast
  have b: "apply_store_op dbs x = Inr dbs' \<and> stored_row dbs pn = Some rw \<longrightarrow>
        map_option col_pgr_deadline (stored_row dbs' pn) = Some (col_pgr_deadline rw)"
    using apply_store_op_keeps_row [of dbs x dbs' pn rw] by auto
  have c: "col_issue_date ra = col_issue_date rb \<longrightarrow>
        pgr_months_remaining (row_to_patent ra) td = pgr_months_remaining (row_to_patent rb) td
        \<and> urgency (row_to_patent ra) td = urgency (row_to_patent rb) td"
    unfolding urgency_def pgr_months_remaining_def pgr_deadline_row_to_patent by simp
  from a b c pgr_deadline_row_to_patent show ?thesis by blast
qed

text \<open>One stored row, read on two different days: the column keeps 2026-10-15 through a
  status change, while the urgency that is read goes from low to high.\<close>

theorem derived_fields_persistence_witness:
  "\<exists>db' r.
     insert_patent empty_db
        (new_patent ''D1012345'' ''Eyeglasses Frame'' \<lparr>year = 2026, month = 1, day = 15\<rparr>
           \<lparr>dt_date = \<lparr>year = 2026, month = 1, day = 20\<rparr>, dt_micros = 0\<rparr>) None = Inr (True, db')
     \<and> patents db' = [r]
     \<and> col_pgr_deadline r = \<lparr>year = 2026, month = 10, day = 15\<rparr>
     \<and> map_option col_pgr_deadline
           (stored_row (update_patent_status db' ''D1012345'' ''flagged'') ''D1012345'')
         = Some \<lparr>year = 2026, month = 10, day = 15\<rparr>
     \<and> pgr_deadline (row_to_patent r) = Inr \<lparr>year = 2026, month = 10, day = 15\<rparr>
     \<and> urgency (row_to_patent r) \<lparr>year = 2026, month = 2, day = 24\<rparr> = Inr ''low''
     \<and> urgency (row_to_patent r) \<lparr>year = 2026, month = 8, day = 1\<rparr> = Inr ''high''"
proof -
  let ?d = "\<lparr>year = 2026, month = 1, day = 15\<rparr>"
  let ?dl = "\<lparr>year = 2026, month = 10, day = 15\<rparr>"
  let ?t1 = "\<lparr>dt_date = \<lparr>year = 2026, month = 1, day = 20\<rparr>, dt_micros = 0\<rparr>"
  let ?p = "new_patent ''D1012345'' ''Eyeglasses Frame'' ?d ?t1"
  let ?x = "UpdatePatentStatus ''D1012345'' ''flagged''"
  have "\<not> patent_exists empty_db (patent_number ?p)"
    by (simp add: patent_exists_def empty_db_def)
  from insert_patent_fresh [OF this pgr_deadline_example]
  obtain db' where i: "insert_patent empty_db ?p None = Inr (True, db')" by blast
  from insert_patent_new_row [OF i] obtain r where
    r: "patents db' = patents empty_db @ [r]" "col_patent_number r = patent_number ?p"
       "col_issue_date r = issue_date ?p"
    by blast
  have r1: "patents db' = [r]" using r(1) by (simp add: empty_db_def)
  have s: "stored_row db' ''D1012345'' = Some r"
    unfolding stored_row_def r1 using r(2) by (simp add: new_patent_def)
  have x: "apply_store_op db' ?x = Inr (update_patent_status db' ''D1012345'' ''flagged'')"
    by simp
  note t = derived_fields_persistence
    [where db = empty_db and p = ?p and mc = None and db' = db' and x = ?x and dbs = db'
       and dbs' = "update_patent_status db' ''D1012345'' ''flagged''"
       and pn = "''D1012345''" and rw = r and r = r and ra = r and rb = r]
  from t i r1 have dl: "col_pgr_deadline r = ?dl"
    using pgr_deadline_example [of "''D1012345''" "''Eyeglasses Frame''" ?t1]
    by (auto simp: empty_db_def)
  from t x s have kept: "map_option col_pgr_deadline
           (stored_row (update_patent_status db' ''D1012345'' ''flagged'') ''D1012345'') = Some ?dl"
    using dl by simp
  have iss: "issue_date (row_to_patent r) = ?d"
    using r(3) by (simp add: row_to_patent_def new_patent_def)
  have same_p: "\<And>td. urgency (row_to_patent r) td = urgency ?p td"
    unfolding urgency_def pgr_months_remaining_def pgr_deadline_def
    using iss by (simp add: new_patent_def)
  have rd: "pgr_deadline (row_to_patent r) = Inr ?dl"
    unfolding pgr_deadline_def iss using pgr_deadline_example [of "''D1012345''" "''Eyeglasses Frame''" ?t1]
    unfolding pgr_deadline_def by (simp add: new_patent_def)
  have u1: "urgency ?p \<lparr>year = 2026, month = 2, day = 24\<rparr> = Inr ''low''" by code_simp
  have u2: "urgency ?p \<lparr>year = 2026, month = 8, day = 1\<rparr> = Inr ''high''" by code_simp
  from i r1 dl kept rd u1 u2 same_p show ?thesis by auto
qed

section \<open>Scans\<close>

text \<open>
  Claim C1. With both sources enabled, when the fetch of one source raises and the other
  source succeeds (its fetch returns and its candidates are processed to the end),
  \<open>run_scan\<close> returns normally: the aggregate holds the alerts and counts of the source
  that succeeded and exactly one error, the text of the exception behind the prefix of
  the source that failed; the store holds the patents that were inserted and, after the
  runs it had, exactly one new run per source, the failed one with the text of the
  exception as its error. Whatever the two sources do, the scan returns and logs one run
  for the API and one for the gazette.
\<close>

theorem partial_failure_isolation:
  assumes en: "uspto_api (sources cfg)" "official_gazette (sources cfg)"
      and w: "api_window cfg db date_from date_to (today clock) = Inr (d_from, d_to)"
  shows
    "(api_fetch d_from d_to (api_keywords cfg) = Inl e
      \<and> process_patents (search_criteria cfg) ps db [] = (found, db', None) \<longrightarrow>
        run_scan cfg db date_from date_to api_fetch (Inr ps) clock =
           Inr (\<lparr>alerts = found, total_fetched = length ps, new_matches = length found,
                 errors = [''API search failed: '' @ exc_str e],
                 scan_duration_seconds = scan_end clock - scan_start clock\<rparr>,
                \<lparr>patents = patents db',
                 search_runs = search_runs db @
                   [\<lparr>run_at = api_run_at clock, source = ''api'',
                     query_params = Some (d_from, d_to), results_count = 0,
                     new_matches_count = 0, run_error = Some (exc_str e),
                     run_duration_seconds = api_end clock - api_start clock\<rparr>,
                    \<lparr>run_at = gazette_run_at clock, source = ''gazette'',
                     query_params = None, results_count = length ps,
                     new_matches_count = length found, run_error = None,
                     run_duration_seconds = gazette_end clock - gazette_start clock\<rparr>]\<rparr>))
     \<and> (api_fetch d_from d_to (api_keywords cfg) = Inr ps
      \<and> process_patents (search_criteria cfg) ps db [] = (found, db', None) \<longrightarrow>
        run_scan cfg db date_from date_to api_fetch (Inl e) clock =
           Inr (\<lparr>alerts = found, total_fetched = length ps, new_matches = length found,
                 errors = [''Gazette scrape failed: '' @ exc_str e],
                 scan_duration_seconds = scan_end clock - scan_start clock\<rparr>,
                \<lparr>patents = patents db',
                 search_runs = search_runs db @
                   [\<lparr>run_at = api_run_at clock, source = ''api'',
                     query_params = Some (d_from, d_to), results_count = length ps,
                     new_matches_count = length found, run_error = None,
                     run_duration_seconds = api_end clock - api_start clock\<rparr>,
                    \<lparr>run_at = gazette_run_at clock, source = ''gazette'',
                     query_params = None, results_count = 0,
                     new_matches_count = 0, run_error = Some (exc_str e),
                     run_duration_seconds = gazette_end clock - gazette_start clock\<rparr>]\<rparr>))
     \<and> (\<exists>res db2 r1 r2.
           run_scan cfg db date_from date_to api_fetch gazette_fetch clock = Inr (res, db2)
           \<and> search_runs db2 = search_runs db @ [r1, r2]
           \<and> source r1 = ''api'' \<and> source r2 = ''gazette'')"
proof -
  from run_scan_logs_each_source [OF w, of api_fetch gazette_fetch] en
  obtain res db2 new_runs where
    r: "run_scan cfg db date_from date_to api_fetch gazette_fetch clock = Inr (res, db2)"
       "search_runs db2 = search_runs db @ new_runs"
       "map source new_runs = [''api'', ''gazette'']"
    by auto
  from r(3) obtain r1 r2 where "new_runs = [r1, r2]" "source r1 = ''api''" "source r2 = ''gazette''"
    by (auto simp: map_eq_Cons_conv)
  with r(1,2) have third: "\<exists>res db2 r1 r2.
           run_scan cfg db date_from date_to api_fetch gazette_fetch clock = Inr (res, db2)
           \<and> search_runs db2 = search_runs db @ [r1, r2]
           \<and> source r1 = ''api'' \<and> source r2 = ''gazette''"
    by blast
  from third run_scan_api_raises [OF en w] run_scan_gazette_raises [OF en w]
  show ?thesis by blast
qed

text \<open>The API raising "API down" while the gazette gives two patents that match: one
  error, two new matches, both runs logged.\<close>

theorem partial_failure_isolation_witness:
  "\<exists>res db'.
      run_scan test_config empty_db None None
        (\<lambda>d_from d_to kw. Inl (PyExc RuntimeError ''API down''))
        (Inr [test_patent ''D1012345'' ''Eyeglasses Frame'' ''D16/300'',
              test_patent ''D1012346'' ''Sunglasses'' ''D16/301; D16/300''])
        test_clock = Inr (res, db')
      \<and> errors res = [''API search failed: API down'']
      \<and> new_matches res = 2
      \<and> length (alerts res) = 2
      \<and> map source (search_runs db') = [''api'', ''gazette'']
      \<and> map run_error (search_runs db') = [Some ''API down'', None]
      \<and> map new_matches_count (search_runs db') = [0, 2]
      \<and> get_patent_count db' = 2"
proof -
  let ?ps = "[test_patent ''D1012345'' ''Eyeglasses Frame'' ''D16/300'',
              test_patent ''D1012346'' ''Sunglasses'' ''D16/301; D16/300'']"
  let ?fetch = "\<lambda>(d_from :: date) (d_to :: date) (kw :: string list option).
                   (Inl (PyExc RuntimeError ''API down'') :: pyexc + patent list)"
  obtain found db1 x where
    l0: "process_patents (search_criteria test_config) ?ps empty_db [] = (found, db1, x)"
    by (cases "process_patents (search_criteria test_config) ?ps empty_db []") auto
  with test_two_matches have n: "length found = 2" "x = None" "length (patents db1) = 2" by auto
  from l0 n have l: "process_patents (search_criteria test_config) ?ps empty_db [] = (found, db1, None)"
    by simp
  have en: "uspto_api (sources test_config)" "official_gazette (sources test_config)"
    by (simp_all add: test_config_def)
  have f: "?fetch \<lparr>year = 2025, month = 12, day = 1\<rparr> \<lparr>year = 2026, month = 3, day = 1\<rparr>
             (api_keywords test_config) = Inl (PyExc RuntimeError ''API down'')"
    by simp
  from partial_failure_isolation [OF en test_window, of ?fetch "PyExc RuntimeError ''API down''"
      ?ps found db1] f l
  have "run_scan test_config empty_db None None ?fetch (Inr ?ps) test_clock
          = Inr (\<lparr>alerts = found, total_fetched = length ?ps, new_matches = length found,
                 errors = [''API search failed: '' @ exc_str (PyExc RuntimeError ''API down'')],
                 scan_duration_seconds = scan_end test_clock - scan_start test_clock\<rparr>,
                \<lparr>patents = patents db1,
                 search_runs = search_runs empty_db @
                   [\<lparr>run_at = api_run_at test_clock, source = ''api'',
                     query_params = Some (\<lparr>year = 2025, month = 12, day = 1\<rparr>, \<lparr>year = 2026, month = 3, day = 1\<rparr>),
                     results_count = 0,
                     new_matches_count = 0, run_error = Some (exc_str (PyExc RuntimeError ''API down'')),
                     run_duration_seconds = api_end test_clock - api_start test_clock\<rparr>,
                    \<lparr>run_at = gazette_run_at test_clock, source = ''gazette'',
                     query_params = None, results_count = length ?ps,
                     new_matches_count = length found, run_error = None,
                     run_duration_seconds = gazette_end test_clock - gazette_start test_clock\<rparr>]\<rparr>)"
    by blast
  then show ?thesis using n by (simp add: empty_db_def get_patent_count_def)
qed

text \<open>
  Claim C2, as the specification states it, fails in its account of the second run: a
  candidate that matched no rule in the first run was not stored, so the existence check
  does not skip it; it reaches the matcher again.
\<close>

theorem rescan_unmatched_candidate_not_skipped:
  "(case run_scan test_config empty_db
          (Some \<lparr>year = 2026, month = 2, day = 1\<rparr>) (Some \<lparr>year = 2026, month = 3, day = 1\<rparr>)
          (\<lambda>d_from d_to kw. Inr [test_patent ''D9999999'' ''Unrelated Widget'' ''D99/999''])
          (Inr []) test_clock of
      Inl e \<Rightarrow> False
    | Inr (res1, db1) \<Rightarrow>
        \<not> patent_exists db1 (patent_number (test_patent ''D9999999'' ''Unrelated Widget'' ''D99/999''))
        \<and> matcher_match (search_criteria test_config)
             (test_patent ''D9999999'' ''Unrelated Widget'' ''D99/999'') = [])"
  by code_simp

text \<open>
  Claim C2, amended. When a scan over a given window has returned, the same scan again
  (same window, same output of the sources, candidates whose deadline can be computed)
  reports no new match and no alert, and the patents of the store, so also their count,
  are unchanged: every candidate is either skipped by the existence check or, not
  stored because it matched no rule, matches no rule again.
\<close>

theorem rescan_idempotent:
  assumes wf: "\<forall>p \<in> set (scan_candidates cfg (api_fetch f t (api_keywords cfg)) gazette_fetch).
                  \<exists>d. pgr_deadline p = Inr d"
      and first: "run_scan cfg db (Some f) (Some t) api_fetch gazette_fetch clock1 = Inr (res1, db1)"
  shows "\<exists>res2 db2.
           run_scan cfg db1 (Some f) (Some t) api_fetch gazette_fetch clock2 = Inr (res2, db2)
           \<and> new_matches res2 = 0 \<and> alerts res2 = []
           \<and> patents db2 = patents db1
           \<and> get_patent_count db2 = get_patent_count db1
           \<and> (\<forall>p \<in> set (scan_candidates cfg (api_fetch f t (api_keywords cfg)) gazette_fetch).
                  patent_exists db1 (patent_number p)
                  \<or> matcher_match (search_criteria cfg) p = [])"
proof -
  note c = run_scan_tracks [OF wf first]
  from c run_scan_noop [where cfg = cfg and api_fetch = api_fetch and f = f and t = t
      and gazette_fetch = gazette_fetch and db = db1 and clock = clock2]
  obtain res2 db2 where
    "run_scan cfg db1 (Some f) (Some t) api_fetch gazette_fetch clock2 = Inr (res2, db2)"
    "alerts res2 = []" "new_matches res2 = 0" "patents db2 = patents db1"
    by blast
  with c show ?thesis by (auto simp: get_patent_count_def)
qed

text \<open>A matching patent and an unrelated one from the API, nothing from the gazette: one
  match in the first scan, none in the second, one patent in the store after both.\<close>

theorem rescan_idempotent_witness:
  "\<exists>res1 db1 res2 db2.
      run_scan test_config empty_db
          (Some \<lparr>year = 2026, month = 2, day = 1\<rparr>) (Some \<lparr>year = 2026, month = 3, day = 1\<rparr>)
          (\<lambda>d_from d_to kw. Inr [test_patent ''D1012345'' ''Eyeglasses Frame'' ''D16/300'',
                                   test_patent ''D9999999'' ''Unrelated Widget'' ''D99/999''])
          (Inr []) test_clock = Inr (res1, db1)
      \<and> new_matches res1 = 1 \<and> get_patent_count db1 = 1
      \<and> run_scan test_config db1
          (Some \<lparr>year = 2026, month = 2, day = 1\<rparr>) (Some \<lparr>year = 2026, month = 3, day = 1\<rparr>)
          (\<lambda>d_from d_to kw. Inr [test_patent ''D1012345'' ''Eyeglasses Frame'' ''D16/300'',
                                   test_patent ''D9999999'' ''Unrelated Widget'' ''D99/999''])
          (Inr []) test_clock = Inr (res2, db2)
      \<and> new_matches res2 = 0 \<and> get_patent_count db2 = 1"
proof -
  let ?f = "\<lparr>year = 2026, month = 2, day = 1\<rparr>"
  let ?t = "\<lparr>year = 2026, month = 3, day = 1\<rparr>"
  let ?ps = "[test_patent ''D1012345'' ''Eyeglasses Frame'' ''D16/300'',
              test_patent ''D9999999'' ''Unrelated Widget'' ''D99/999'']"
  let ?fetch = "\<lambda>(d_from :: date) (d_to :: date) (kw :: string list option).
                   (Inr ?ps :: pyexc + patent list)"
  let ?g = "Inr [] :: pyexc + patent list"
  obtain res1 db1 where
    r1: "run_scan test_config empty_db (Some ?f) (Some ?t) ?fetch ?g test_clock = Inr (res1, db1)"
    and n1: "new_matches res1 = 1" "get_patent_count db1 = 1"
    using test_first_scan
    by (cases "run_scan test_config empty_db (Some ?f) (Some ?t) ?fetch ?g test_clock") auto
  have wf: "\<forall>p \<in> set (scan_candidates test_config (?fetch ?f ?t (api_keywords test_config)) ?g).
              \<exists>d. pgr_deadline p = Inr d"
    by (auto simp: scan_candidates_def candidates_of_def pgr_deadline_test_patent)
  from wf r1 rescan_idempotent [where cfg = test_config and api_fetch = ?fetch and f = ?f
      and t = ?t and gazette_fetch = ?g and db = empty_db and ?clock1.0 = test_clock
      and ?res1.0 = res1 and ?db1.0 = db1 and ?clock2.0 = test_clock]
  obtain res2 db2 where
    "run_scan test_config db1 (Some ?f) (Some ?t) ?fetch ?g test_clock = Inr (res2, db2)"
    "new_matches res2 = 0" "get_patent_count db2 = get_patent_count db1"
    by blast
  with r1 n1 show ?thesis by auto
qed

section \<open>Normalisation of responses\<close>



text \<open>
  Claim C8. Every dict that a tier obtains is to give a sanitised result. A dict whose
  score is null does not: \<open>int(None)\<close> raises TypeError in \<open>_data_to_result\<close>, the handlers
  of \<open>_parse_response\<close> catch JSONDecodeError only, and the exception leaves the
  method. \<open>analyze\<close> then builds the sentinel of a failed call from it: the risk "high"
  of the response is lost and the error is the text of the TypeError.
\<close>

theorem data_to_result_raises_on_null_score:
  "(case data_to_result int_of_str now
           (JDict [(''similarity_score'', JNull), (''risk_level'', JStr ''high''),
                   (''recommendation'', JStr ''flag''), (''reasoning'', JStr ''Similar.'')]) of
      Inl e \<Rightarrow> exc_class_of e = TypeError
    | Inr r \<Rightarrow> False)
   \<and> (case parse_response
           (\<lambda>s. Inr (JDict [(''similarity_score'', JNull), (''risk_level'', JStr ''high''),
                             (''recommendation'', JStr ''flag''), (''reasoning'', JStr ''Similar.'')]))
           int_of_str now text of
      Inl e \<Rightarrow> exc_class_of e = TypeError
    | Inr r \<Rightarrow> False)
   \<and> risk_level (analyze model
           (\<lambda>s. Inr (JDict [(''similarity_score'', JNull), (''risk_level'', JStr ''high''),
                             (''recommendation'', JStr ''flag''), (''reasoning'', JStr ''Similar.'')]))
           int_of_str now stamp img imgs (Inr text)) = ''none''
   \<and> analysis_error (analyze model
           (\<lambda>s. Inr (JDict [(''similarity_score'', JNull), (''risk_level'', JStr ''high''),
                             (''recommendation'', JStr ''flag''), (''reasoning'', JStr ''Similar.'')]))
           int_of_str now stamp img imgs (Inr text)) \<noteq> None"
  by (simp add: data_to_result_def data_get_def analyze_def parse_response_def try_loads_def
                call_failure_result_def)

end
